theory Spec2Isabelle
  imports Complex_Main "HOL-Library.AList" "HOL-Library.Log_Nat"
begin

section \<open>Data model\<close>

text \<open>
  The documents of the MongoDB collections, as the Mongoose schemas declare them
  (models/Product.js, models/Sale.js, models/Purchase.js, models/AuditLog.js).
  A JavaScript Number is an IEEE double; it is modelled by the rational it denotes, and the
  arithmetic of the controllers rounds as the doubles do (section on double arithmetic
  below). An ObjectId is a natural number, a Date is its count of milliseconds since the
  epoch. Of an audit entry and a notification the fields that identify them are
  kept; the free-form \<open>meta\<close>, title and message are left out.
\<close>

type_synonym num = rat
type_synonym oid = nat
type_synonym date = int

subsection \<open>Double arithmetic\<close>

text \<open>
  \<open>toDouble\<close> rounds a rational to the nearest number with a significand of 53 bits,
  ties to the even significand, as \<open>+\<close>, \<open>-\<close>, \<open>*\<close> and \<open>/\<close> of JavaScript
  round their exact result. \<open>expo x\<close> is the exponent \<open>e\<close> with
  \<open>2^e \<le> x < 2^(e+1)\<close> of a positive \<open>x\<close>. The exponent is not bounded here:
  infinities, NaN and subnormal numbers (beyond \<open>2^1024\<close>, below \<open>2^-1022\<close>) are
  outside the model.
\<close>

definition expo :: "num \<Rightarrow> int" where
  "expo x = (if 1 \<le> x then bitlen \<lfloor>x\<rfloor> - 1 else - bitlen (\<lceil>1 / x\<rceil> - 1))"

definition roundHalfEven :: "num \<Rightarrow> int" where
  "roundHalfEven m =
     (let f = \<lfloor>m\<rfloor>; r = m - of_int f
      in if r < 1 / 2 then f else if 1 / 2 < r then f + 1 else if even f then f else f + 1)"

definition toDouble :: "num \<Rightarrow> num" where
  "toDouble x =
     (if x = 0 then 0
      else let u = 2 powi (expo \<bar>x\<bar> - 52)
           in sgn x * (of_int (roundHalfEven (\<bar>x\<bar> / u)) * u))"

definition jsAdd :: "num \<Rightarrow> num \<Rightarrow> num" where
  "jsAdd a b = toDouble (a + b)"

definition jsSub :: "num \<Rightarrow> num \<Rightarrow> num" where
  "jsSub a b = toDouble (a - b)"

definition jsMul :: "num \<Rightarrow> num \<Rightarrow> num" where
  "jsMul a b = toDouble (a * b)"

definition jsDiv :: "num \<Rightarrow> num \<Rightarrow> num" where
  "jsDiv a b = toDouble (a / b)"

subsection \<open>Documents\<close>

record product =
  p_id :: oid
  p_name :: string
  p_sku :: string
  p_category :: string
  unitPriceTZS :: num
  costPriceTZS :: num
  stockQuantity :: num

record snapshot =
  snap_name :: string
  snap_sku :: string

record sale =
  s_id :: oid
  s_productId :: oid
  productSnapshot :: snapshot
  quantitySold :: num
  unitPriceAtSaleTZS :: num
  totalPriceTZS :: num
  paymentMethod :: string
  paymentStatus :: string
  soldBy :: oid
  s_date :: date

record purchase =
  pu_id :: oid
  pu_productId :: oid
  quantityPurchased :: num
  unitCostTZS :: num
  totalCostTZS :: num
  supplierText :: string
  purchasedBy :: oid
  pu_date :: date

record user =
  u_id :: oid
  u_role :: string

record auditLog =
  a_userId :: oid
  a_action :: string
  a_entityType :: string
  a_entityId :: oid

record notification =
  n_userId :: oid
  n_type :: string
  n_ref :: oid

text \<open>
  The order in which a handler performs its store calls: a write made with the session of
  the open transaction, a write made without it (visible at once), a line on
  \<open>console.error\<close>, and the end of the transaction.
\<close>

datatype coll = Products | Sales | Purchases | AuditLogs | Notifications

datatype event = TxWrite coll | Write coll | ConsoleError | Commit | Abort

record db =
  products :: "product list"
  sales :: "sale list"
  purchases :: "purchase list"
  users :: "user list"
  auditLogs :: "auditLog list"
  notifications :: "notification list"
  trace :: "event list"

text \<open>The view of the three ledger collections inside an open transaction.\<close>

record txn =
  tx_products :: "product list"
  tx_sales :: "sale list"
  tx_purchases :: "purchase list"

text \<open>
  What the handlers do not decide themselves: the clock, the offset of the server's time
  zone from UTC in milliseconds, and whether the store accepts an audit write, a
  notification write and the commit of the transaction.
\<close>

record env =
  now :: date
  tzOffset :: int
  auditOk :: bool
  notifyOk :: bool
  commitOk :: bool

text \<open>
  \<open>req.body\<close>: every field may be missing. The front end sends numbers for
  \<open>quantity\<close>, \<open>sellingPrice\<close>, \<open>costPrice\<close> and \<open>stockQuantity\<close>; a number
  of the body is the double that \<open>JSON.parse\<close> has made of it.
\<close>

record body =
  b_productId :: "oid option"
  b_quantity :: "num option"
  b_sellingPrice :: "num option"
  b_costPrice :: "num option"
  b_paymentMethod :: "string option"
  b_paymentStatus :: "string option"
  b_supplier :: "string option"
  b_name :: "string option"
  b_sku :: "string option"
  b_category :: "string option"
  b_stockQuantity :: "num option"

datatype failure =
    AllFieldsRequired
  | NotFound string
  | InsufficientStock num num
  | NegativeSellingPrice
  | DuplicateSKU
  | ServerError string
  | DriverError

datatype 'a response = Success nat 'a | Failure nat failure

section \<open>JavaScript and Mongoose helpers\<close>

text \<open>Truthiness of a possibly missing number, string and id; \<open>trim\<close> and
  \<open>toUpperCase\<close> on ASCII text.\<close>

definition truthyNum :: "num option \<Rightarrow> bool" where
  "truthyNum v = (case v of None \<Rightarrow> False | Some x \<Rightarrow> x \<noteq> 0)"

definition truthyStr :: "string option \<Rightarrow> bool" where
  "truthyStr v = (case v of None \<Rightarrow> False | Some s \<Rightarrow> s \<noteq> [])"

definition truthyId :: "oid option \<Rightarrow> bool" where
  "truthyId v = (case v of None \<Rightarrow> False | Some i \<Rightarrow> True)"

definition isSpace :: "char \<Rightarrow> bool" where
  "isSpace c = (of_char c \<in> set [9, 10, 11, 12, 13, 32 :: nat])"

definition trim :: "string \<Rightarrow> string" where
  "trim s = rev (dropWhile isSpace (rev (dropWhile isSpace s)))"

definition toUpperCase :: "string \<Rightarrow> string" where
  "toUpperCase s =
     map (\<lambda>c. if 97 \<le> (of_char c :: nat) \<and> (of_char c :: nat) \<le> 122
               then char_of ((of_char c :: nat) - 32) else c) s"

text \<open>\<open>Model.findById\<close>, the update of one document by \<open>save\<close>, and
  \<open>findByIdAndDelete\<close>: each touches the first document with the given id.\<close>

definition findById :: "('a \<Rightarrow> oid) \<Rightarrow> oid \<Rightarrow> 'a list \<Rightarrow> 'a option" where
  "findById key i xs = find (\<lambda>x. key x = i) xs"

fun replaceById :: "('a \<Rightarrow> oid) \<Rightarrow> 'a \<Rightarrow> 'a list \<Rightarrow> 'a list" where
  "replaceById key d [] = []"
| "replaceById key d (x # xs) =
     (if key x = key d then d # xs else x # replaceById key d xs)"

fun deleteById :: "('a \<Rightarrow> oid) \<Rightarrow> oid \<Rightarrow> 'a list \<Rightarrow> 'a list" where
  "deleteById key i [] = []"
| "deleteById key i (x # xs) =
     (if key x = i then xs else x # deleteById key i xs)"

text \<open>A new ObjectId differs from every id of the collection.\<close>

definition freshId :: "oid list \<Rightarrow> oid" where
  "freshId ids = Suc (fold max ids 0)"

subsection \<open>Schema validators\<close>

definition saleFieldsValid :: "sale \<Rightarrow> bool" where
  "saleFieldsValid s =
     (1 \<le> quantitySold s \<and> 0 \<le> unitPriceAtSaleTZS s \<and> 0 \<le> totalPriceTZS s
      \<and> paymentMethod s \<in> set [''cash'', ''mobile'', ''card'']
      \<and> paymentStatus s \<in> set [''paid'', ''pending''])"

definition saleValid :: "sale \<Rightarrow> bool" where
  "saleValid s =
     (snap_name (productSnapshot s) \<noteq> [] \<and> snap_sku (productSnapshot s) \<noteq> []
      \<and> saleFieldsValid s)"

definition purchaseValid :: "purchase \<Rightarrow> bool" where
  "purchaseValid p =
     (1 \<le> quantityPurchased p \<and> 0 \<le> unitCostTZS p \<and> 0 \<le> totalCostTZS p
      \<and> supplierText p \<noteq> [])"

definition productValid :: "product \<Rightarrow> bool" where
  "productValid p =
     (p_name p \<noteq> [] \<and> p_sku p \<noteq> [] \<and> p_category p \<noteq> []
      \<and> 0 \<le> unitPriceTZS p \<and> 0 \<le> costPriceTZS p \<and> 0 \<le> stockQuantity p)"

definition auditValid :: "auditLog \<Rightarrow> bool" where
  "auditValid a =
     (a_action a \<in> set [''login'', ''login_2fa'', ''logout'', ''create_user'',
        ''create_product'', ''update_product'', ''delete_product'', ''create_sale'',
        ''create_purchase'', ''create_expense'', ''update_expense'', ''delete_expense'',
        ''reset_password'', ''update_user'', ''delete_user'']
      \<and> a_entityType a \<in> set [''user'', ''product'', ''sale'', ''purchase'', ''expense'', ''auth''])"

subsection \<open>Transactions\<close>

definition startTransaction :: "db \<Rightarrow> txn" where
  "startTransaction d =
     \<lparr>tx_products = products d, tx_sales = sales d, tx_purchases = purchases d\<rparr>"

definition emit :: "event \<Rightarrow> db \<Rightarrow> db" where
  "emit e d = d\<lparr>trace := trace d @ [e]\<rparr>"

definition abortTransaction :: "db \<Rightarrow> db" where
  "abortTransaction d = emit Abort d"

text \<open>The \<open>catch\<close> block of a handler after a validator or a write has thrown:
  abort, then log; the handler answers with its own 500.\<close>

definition caught :: "db \<Rightarrow> db" where
  "caught d = emit ConsoleError (abortTransaction d)"

text \<open>
  The \<open>catch\<close> block after \<open>commitTransaction\<close> has thrown: the driver refuses
  \<open>abortTransaction\<close> once a commit has been attempted and throws in its turn, so the
  handler neither logs nor answers. The error reaches \<open>errorHandler\<close>
  (middleware/errorHandler.js), which logs it and answers 500 with the message of the
  driver's error. Nothing of the transaction is committed.
\<close>

definition commitFailed :: "db \<Rightarrow> 'a response \<times> db" where
  "commitFailed d = (Failure 500 DriverError, emit ConsoleError d)"

definition commitTransaction :: "env \<Rightarrow> txn \<Rightarrow> db \<Rightarrow> db option" where
  "commitTransaction e t d =
     (if commitOk e
      then Some (emit Commit (d\<lparr>products := tx_products t, sales := tx_sales t,
                                purchases := tx_purchases t\<rparr>))
      else None)"

subsection \<open>Writes inside the session\<close>

definition Sale_create :: "sale \<Rightarrow> txn \<Rightarrow> db \<Rightarrow> (sale \<times> txn \<times> db) option" where
  "Sale_create doc t d =
     (if saleValid doc
      then (let s = doc\<lparr>s_id := freshId (map s_id (tx_sales t))\<rparr>
            in Some (s, t\<lparr>tx_sales := tx_sales t @ [s]\<rparr>, emit (TxWrite Sales) d))
      else None)"

definition Sale_save :: "sale \<Rightarrow> txn \<Rightarrow> db \<Rightarrow> (txn \<times> db) option" where
  "Sale_save s t d =
     (if saleFieldsValid s
      then Some (t\<lparr>tx_sales := replaceById s_id s (tx_sales t)\<rparr>, emit (TxWrite Sales) d)
      else None)"

definition Sale_findByIdAndDelete :: "oid \<Rightarrow> txn \<Rightarrow> db \<Rightarrow> txn \<times> db" where
  "Sale_findByIdAndDelete i t d =
     (t\<lparr>tx_sales := deleteById s_id i (tx_sales t)\<rparr>, emit (TxWrite Sales) d)"

definition Purchase_create :: "purchase \<Rightarrow> txn \<Rightarrow> db \<Rightarrow> (purchase \<times> txn \<times> db) option" where
  "Purchase_create doc t d =
     (let doc' = doc\<lparr>supplierText := trim (supplierText doc)\<rparr>
      in if purchaseValid doc'
         then (let p = doc'\<lparr>pu_id := freshId (map pu_id (tx_purchases t))\<rparr>
               in Some (p, t\<lparr>tx_purchases := tx_purchases t @ [p]\<rparr>, emit (TxWrite Purchases) d))
         else None)"

definition Purchase_save :: "purchase \<Rightarrow> txn \<Rightarrow> db \<Rightarrow> (txn \<times> db) option" where
  "Purchase_save p t d =
     (if purchaseValid p
      then Some (t\<lparr>tx_purchases := replaceById pu_id p (tx_purchases t)\<rparr>,
                 emit (TxWrite Purchases) d)
      else None)"

definition Purchase_findByIdAndDelete :: "oid \<Rightarrow> txn \<Rightarrow> db \<Rightarrow> txn \<times> db" where
  "Purchase_findByIdAndDelete i t d =
     (t\<lparr>tx_purchases := deleteById pu_id i (tx_purchases t)\<rparr>, emit (TxWrite Purchases) d)"

text \<open>
  \<open>product.save({ session })\<close> runs the validators of the paths the handler has
  modified: \<open>stockQuantity\<close> in every ledger handler, \<open>costPriceTZS\<close> where the
  handler has assigned it.
\<close>

definition Product_save :: "bool \<Rightarrow> product \<Rightarrow> txn \<Rightarrow> db \<Rightarrow> (txn \<times> db) option" where
  "Product_save costModified p t d =
     (if 0 \<le> stockQuantity p \<and> (if costModified then 0 \<le> costPriceTZS p else True)
      then Some (t\<lparr>tx_products := replaceById p_id p (tx_products t)\<rparr>,
                 emit (TxWrite Products) d)
      else None)"

text \<open>
  \<open>Product.create\<close>, outside any transaction: the schema's setters trim the strings
  and put the SKU in upper case (\<open>castSku\<close>; Mongoose casts the \<open>sku\<close> of a query
  filter the same way), all validators run, and the unique index on \<open>sku\<close> rejects a
  duplicate.
\<close>

definition castSku :: "string \<Rightarrow> string" where
  "castSku s = toUpperCase (trim s)"

definition Product_create :: "product \<Rightarrow> db \<Rightarrow> (product \<times> db) option" where
  "Product_create doc d =
     (let doc' = doc\<lparr>p_name := trim (p_name doc), p_sku := castSku (p_sku doc),
                      p_category := trim (p_category doc)\<rparr>
      in if productValid doc' \<and> find (\<lambda>p. p_sku p = p_sku doc') (products d) = None
         then (let p = doc'\<lparr>p_id := freshId (map p_id (products d))\<rparr>
               in Some (p, emit (Write Products) (d\<lparr>products := products d @ [p]\<rparr>)))
         else None)"

subsection \<open>Audit trail and notifications (utils/auditLogger.js, utils/notificationHelper.js)\<close>

text \<open>Both helpers catch every error of their write and log it; neither takes the
  session, so a row they write is stored at once.\<close>

definition createAuditLog :: "env \<Rightarrow> auditLog \<Rightarrow> db \<Rightarrow> db" where
  "createAuditLog e a d =
     (if auditOk e \<and> auditValid a
      then emit (Write AuditLogs) (d\<lparr>auditLogs := auditLogs d @ [a]\<rparr>)
      else emit ConsoleError d)"

definition createNotification :: "env \<Rightarrow> notification \<Rightarrow> db \<Rightarrow> db" where
  "createNotification e n d =
     (if notifyOk e
      then emit (Write Notifications) (d\<lparr>notifications := notifications d @ [n]\<rparr>)
      else emit ConsoleError d)"

definition createLowStockNotification :: "env \<Rightarrow> product \<Rightarrow> user list \<Rightarrow> db \<Rightarrow> db" where
  "createLowStockNotification e p allAdmins d =
     (if notifyOk e
      then emit (Write Notifications)
             (d\<lparr>notifications := notifications d @
                  map (\<lambda>admin. \<lparr>n_userId = u_id admin, n_type = ''low_stock'', n_ref = p_id p\<rparr>)
                      allAdmins\<rparr>)
      else emit ConsoleError d)"

definition createSaleNotification :: "env \<Rightarrow> oid \<Rightarrow> oid \<Rightarrow> db \<Rightarrow> db" where
  "createSaleNotification e saleId userId d =
     createNotification e \<lparr>n_userId = userId, n_type = ''sale'', n_ref = saleId\<rparr> d"

definition createPurchaseNotification :: "env \<Rightarrow> oid \<Rightarrow> oid \<Rightarrow> db \<Rightarrow> db" where
  "createPurchaseNotification e purchaseId userId d =
     createNotification e \<lparr>n_userId = userId, n_type = ''purchase'', n_ref = purchaseId\<rparr> d"

definition findAdmins :: "db \<Rightarrow> user list" where
  "findAdmins d = filter (\<lambda>u. u_role u = ''admin'') (users d)"

section \<open>Sales (controllers/saleController.js)\<close>

text \<open>
  What \<open>createSale\<close> does between saving the product and committing: the low-stock
  notification to all admins when the new stock is in (0, 5], the audit entry, and one
  sale notification for each admin. None of these calls takes the session.
\<close>

definition saleSideEffects :: "env \<Rightarrow> oid \<Rightarrow> product \<Rightarrow> sale \<Rightarrow> db \<Rightarrow> db" where
  "saleSideEffects e userId product sale d =
     (let d1 = (if stockQuantity product \<le> 5 \<and> stockQuantity product > 0
                then (if findAdmins d \<noteq> []
                      then createLowStockNotification e product (findAdmins d) d
                      else d)
                else d);
          d2 = createAuditLog e
                 \<lparr>a_userId = userId, a_action = ''create_sale'',
                  a_entityType = ''sale'', a_entityId = s_id sale\<rparr> d1;
          admins = findAdmins d2
      in if admins \<noteq> []
         then fold (\<lambda>admin. createSaleNotification e (s_id sale) (u_id admin)) admins d2
         else d2)"

definition createSale :: "env \<Rightarrow> oid \<Rightarrow> body \<Rightarrow> db \<Rightarrow> sale response \<times> db" where
  "createSale e userId b d =
     (let session = startTransaction d in
      if \<not> truthyId (b_productId b) \<or> \<not> truthyNum (b_quantity b)
         \<or> \<not> truthyNum (b_sellingPrice b) \<or> \<not> truthyStr (b_paymentMethod b)
      then (Failure 400 AllFieldsRequired, abortTransaction d)
      else
        let productId = the (b_productId b);
            quantity = the (b_quantity b);
            sellingPrice = the (b_sellingPrice b);
            method = the (b_paymentMethod b);
            status = (case b_paymentStatus b of None \<Rightarrow> ''Paid'' | Some s \<Rightarrow> s)
        in
        (case findById p_id productId (tx_products session) of
          None \<Rightarrow> (Failure 404 (NotFound ''Product not found.''), abortTransaction d)
        | Some product \<Rightarrow>
            if stockQuantity product < quantity
            then (Failure 400 (InsufficientStock (stockQuantity product) quantity),
                  abortTransaction d)
            else
              let unitPriceAtSale = sellingPrice;
                  quantitySold' = quantity
              in
              if unitPriceAtSale < 0
              then (Failure 400 NegativeSellingPrice, abortTransaction d)
              else
                let totalPrice = jsMul quantitySold' unitPriceAtSale in
                (case Sale_create
                       \<lparr>s_id = 0, s_productId = productId,
                        productSnapshot = \<lparr>snap_name = p_name product, snap_sku = p_sku product\<rparr>,
                        quantitySold = quantitySold', unitPriceAtSaleTZS = unitPriceAtSale,
                        totalPriceTZS = totalPrice, paymentMethod = method,
                        paymentStatus = status, soldBy = userId, s_date = now e\<rparr>
                       session d of
                  None \<Rightarrow> (Failure 500 (ServerError ''Failed to record sale.''), caught d)
                | Some (sale, session1, d1) \<Rightarrow>
                    let product1 = product\<lparr>stockQuantity := jsSub (stockQuantity product) quantitySold'\<rparr> in
                    (case Product_save False product1 session1 d1 of
                      None \<Rightarrow> (Failure 500 (ServerError ''Failed to record sale.''), caught d1)
                    | Some (session2, d2) \<Rightarrow>
                        let d3 = saleSideEffects e userId product1 sale d2 in
                        (case commitTransaction e session2 d3 of
                          None \<Rightarrow> commitFailed d3
                        | Some d4 \<Rightarrow> (Success 201 sale, d4))))))"

definition updateSale :: "env \<Rightarrow> oid \<Rightarrow> oid \<Rightarrow> body \<Rightarrow> db \<Rightarrow> sale response \<times> db" where
  "updateSale e userId saleId b d =
     (let session = startTransaction d in
      (case findById s_id saleId (tx_sales session) of
        None \<Rightarrow> (Failure 404 (NotFound ''Sale not found.''), abortTransaction d)
      | Some sale \<Rightarrow>
          (case findById p_id (s_productId sale) (tx_products session) of
            None \<Rightarrow> (Failure 404 (NotFound ''Product not found.''), abortTransaction d)
          | Some product \<Rightarrow>
              let product1 = product\<lparr>stockQuantity := jsAdd (stockQuantity product) (quantitySold sale)\<rparr> in
              if truthyNum (b_quantity b) \<and> stockQuantity product1 < the (b_quantity b)
              then (Failure 400 (InsufficientStock (stockQuantity product1) (the (b_quantity b))),
                    abortTransaction d)
              else
                let product2 = (if truthyNum (b_quantity b)
                                then product1\<lparr>stockQuantity := jsSub (stockQuantity product1) (the (b_quantity b))\<rparr>
                                else product1);
                    sale1 = (if truthyNum (b_quantity b)
                             then sale\<lparr>quantitySold := the (b_quantity b)\<rparr> else sale);
                    sale2 = (if truthyNum (b_sellingPrice b)
                             then sale1\<lparr>unitPriceAtSaleTZS := the (b_sellingPrice b)\<rparr> else sale1);
                    sale3 = (if truthyStr (b_paymentMethod b)
                             then sale2\<lparr>paymentMethod := the (b_paymentMethod b)\<rparr> else sale2);
                    sale4 = (if truthyStr (b_paymentStatus b)
                             then sale3\<lparr>paymentStatus := the (b_paymentStatus b)\<rparr> else sale3);
                    sale5 = sale4\<lparr>totalPriceTZS := jsMul (quantitySold sale4) (unitPriceAtSaleTZS sale4)\<rparr>
                in
                (case Sale_save sale5 session d of
                  None \<Rightarrow> (Failure 500 (ServerError ''Failed to update sale.''), caught d)
                | Some (session1, d1) \<Rightarrow>
                    (case Product_save False product2 session1 d1 of
                      None \<Rightarrow> (Failure 500 (ServerError ''Failed to update sale.''), caught d1)
                    | Some (session2, d2) \<Rightarrow>
                        let d3 = createAuditLog e
                                   \<lparr>a_userId = userId, a_action = ''update_sale'',
                                    a_entityType = ''sale'', a_entityId = s_id sale5\<rparr> d2
                        in
                        (case commitTransaction e session2 d3 of
                          None \<Rightarrow> commitFailed d3
                        | Some d4 \<Rightarrow> (Success 200 sale5, d4)))))))"

definition deleteSale :: "env \<Rightarrow> oid \<Rightarrow> oid \<Rightarrow> db \<Rightarrow> unit response \<times> db" where
  "deleteSale e userId saleId d =
     (let session = startTransaction d in
      (case findById s_id saleId (tx_sales session) of
        None \<Rightarrow> (Failure 404 (NotFound ''Sale not found.''), abortTransaction d)
      | Some sale \<Rightarrow>
          (case (case findById p_id (s_productId sale) (tx_products session) of
                   None \<Rightarrow> Some (session, d)
                 | Some product \<Rightarrow>
                     Product_save False
                       (product\<lparr>stockQuantity := jsAdd (stockQuantity product) (quantitySold sale)\<rparr>)
                       session d) of
            None \<Rightarrow> (Failure 500 (ServerError ''Failed to delete sale.''), caught d)
          | Some (session1, d1) \<Rightarrow>
              let d2 = createAuditLog e
                         \<lparr>a_userId = userId, a_action = ''delete_sale'',
                          a_entityType = ''sale'', a_entityId = s_id sale\<rparr> d1;
                  (session2, d3) = Sale_findByIdAndDelete saleId session1 d2
              in
              (case commitTransaction e session2 d3 of
                None \<Rightarrow> commitFailed d3
              | Some d4 \<Rightarrow> (Success 200 (), d4)))))"

section \<open>Purchases (controllers/purchaseController.js)\<close>

text \<open>
  What \<open>createPurchase\<close> does between saving the product and committing: the audit
  entry and one purchase notification for each admin, both without the session.
\<close>

definition purchaseSideEffects :: "env \<Rightarrow> oid \<Rightarrow> purchase \<Rightarrow> db \<Rightarrow> db" where
  "purchaseSideEffects e userId purchase d =
     (let d1 = createAuditLog e
                 \<lparr>a_userId = userId, a_action = ''create_purchase'',
                  a_entityType = ''purchase'', a_entityId = pu_id purchase\<rparr> d;
          admins = findAdmins d1
      in if admins \<noteq> []
         then fold (\<lambda>admin. createPurchaseNotification e (pu_id purchase) (u_id admin)) admins d1
         else d1)"

definition createPurchase :: "env \<Rightarrow> oid \<Rightarrow> body \<Rightarrow> db \<Rightarrow> purchase response \<times> db" where
  "createPurchase e userId b d =
     (let session = startTransaction d in
      if \<not> truthyId (b_productId b) \<or> \<not> truthyNum (b_quantity b)
         \<or> \<not> truthyNum (b_costPrice b) \<or> \<not> truthyStr (b_supplier b)
      then (Failure 400 AllFieldsRequired, abortTransaction d)
      else
        let productId = the (b_productId b);
            quantity = the (b_quantity b);
            costPrice = the (b_costPrice b);
            supplier = the (b_supplier b)
        in
        (case findById p_id productId (tx_products session) of
          None \<Rightarrow> (Failure 404 (NotFound ''Product not found.''), abortTransaction d)
        | Some product \<Rightarrow>
            let quantityPurchased' = quantity;
                unitCost = costPrice;
                totalCost = jsMul quantityPurchased' unitCost
            in
            (case Purchase_create
                   \<lparr>pu_id = 0, pu_productId = productId, quantityPurchased = quantityPurchased',
                    unitCostTZS = unitCost, totalCostTZS = totalCost, supplierText = supplier,
                    purchasedBy = userId, pu_date = now e\<rparr>
                   session d of
              None \<Rightarrow> (Failure 500 (ServerError ''Failed to record purchase.''), caught d)
            | Some (purchase, session1, d1) \<Rightarrow>
                let product1 = product\<lparr>stockQuantity := jsAdd (stockQuantity product) quantityPurchased'\<rparr>;
                    product2 = product1\<lparr>costPriceTZS := unitCost\<rparr>
                in
                (case Product_save True product2 session1 d1 of
                  None \<Rightarrow> (Failure 500 (ServerError ''Failed to record purchase.''), caught d1)
                | Some (session2, d2) \<Rightarrow>
                    let d3 = purchaseSideEffects e userId purchase d2 in
                    (case commitTransaction e session2 d3 of
                      None \<Rightarrow> commitFailed d3
                    | Some d4 \<Rightarrow> (Success 201 purchase, d4))))))"

definition updatePurchase :: "env \<Rightarrow> oid \<Rightarrow> oid \<Rightarrow> body \<Rightarrow> db \<Rightarrow> purchase response \<times> db" where
  "updatePurchase e userId purchaseId b d =
     (let session = startTransaction d in
      (case findById pu_id purchaseId (tx_purchases session) of
        None \<Rightarrow> (Failure 404 (NotFound ''Purchase not found.''), abortTransaction d)
      | Some purchase \<Rightarrow>
          (case findById p_id (pu_productId purchase) (tx_products session) of
            None \<Rightarrow> (Failure 404 (NotFound ''Product not found.''), abortTransaction d)
          | Some product \<Rightarrow>
              let product1 = product\<lparr>stockQuantity := jsSub (stockQuantity product) (quantityPurchased purchase)\<rparr>;
                  product2 = (if truthyNum (b_quantity b)
                              then product1\<lparr>stockQuantity := jsAdd (stockQuantity product1) (the (b_quantity b))\<rparr>
                              else product1\<lparr>stockQuantity := jsAdd (stockQuantity product1) (quantityPurchased purchase)\<rparr>);
                  purchase1 = (if truthyNum (b_quantity b)
                               then purchase\<lparr>quantityPurchased := the (b_quantity b)\<rparr> else purchase);
                  purchase2 = (if truthyNum (b_costPrice b)
                               then purchase1\<lparr>unitCostTZS := the (b_costPrice b)\<rparr> else purchase1);
                  product3 = (if truthyNum (b_costPrice b)
                              then product2\<lparr>costPriceTZS := the (b_costPrice b)\<rparr> else product2);
                  purchase3 = (if truthyStr (b_supplier b)
                               then purchase2\<lparr>supplierText := trim (the (b_supplier b))\<rparr> else purchase2);
                  purchase4 = purchase3\<lparr>totalCostTZS := jsMul (quantityPurchased purchase3) (unitCostTZS purchase3)\<rparr>
              in
              (case Purchase_save purchase4 session d of
                None \<Rightarrow> (Failure 500 (ServerError ''Failed to update purchase.''), caught d)
              | Some (session1, d1) \<Rightarrow>
                  (case Product_save (truthyNum (b_costPrice b)) product3 session1 d1 of
                    None \<Rightarrow> (Failure 500 (ServerError ''Failed to update purchase.''), caught d1)
                  | Some (session2, d2) \<Rightarrow>
                      let d3 = createAuditLog e
                                 \<lparr>a_userId = userId, a_action = ''update_purchase'',
                                  a_entityType = ''purchase'', a_entityId = pu_id purchase4\<rparr> d2
                      in
                      (case commitTransaction e session2 d3 of
                        None \<Rightarrow> commitFailed d3
                      | Some d4 \<Rightarrow> (Success 200 purchase4, d4)))))))"

definition deletePurchase :: "env \<Rightarrow> oid \<Rightarrow> oid \<Rightarrow> db \<Rightarrow> unit response \<times> db" where
  "deletePurchase e userId purchaseId d =
     (let session = startTransaction d in
      (case findById pu_id purchaseId (tx_purchases session) of
        None \<Rightarrow> (Failure 404 (NotFound ''Purchase not found.''), abortTransaction d)
      | Some purchase \<Rightarrow>
          (case (case findById p_id (pu_productId purchase) (tx_products session) of
                   None \<Rightarrow> Some (session, d)
                 | Some product \<Rightarrow>
                     Product_save False
                       (product\<lparr>stockQuantity := jsSub (stockQuantity product) (quantityPurchased purchase)\<rparr>)
                       session d) of
            None \<Rightarrow> (Failure 500 (ServerError ''Failed to delete purchase.''), caught d)
          | Some (session1, d1) \<Rightarrow>
              let d2 = createAuditLog e
                         \<lparr>a_userId = userId, a_action = ''delete_purchase'',
                          a_entityType = ''purchase'', a_entityId = pu_id purchase\<rparr> d1;
                  (session2, d3) = Purchase_findByIdAndDelete purchaseId session1 d2
              in
              (case commitTransaction e session2 d3 of
                None \<Rightarrow> commitFailed d3
              | Some d4 \<Rightarrow> (Success 200 (), d4)))))"

section \<open>Products (controllers/productController.js)\<close>

definition createProduct :: "env \<Rightarrow> oid \<Rightarrow> body \<Rightarrow> db \<Rightarrow> product response \<times> db" where
  "createProduct e userId b d =
     (if \<not> truthyStr (b_name b) \<or> \<not> truthyStr (b_sku b) \<or> \<not> truthyStr (b_category b)
         \<or> b_costPrice b = None \<or> b_sellingPrice b = None
      then (Failure 400 AllFieldsRequired, d)
      else
        (case find (\<lambda>p. p_sku p = castSku (toUpperCase (the (b_sku b)))) (products d) of
          Some existingSKU \<Rightarrow> (Failure 400 DuplicateSKU, d)
        | None \<Rightarrow>
            (case Product_create
                   \<lparr>p_id = 0, p_name = the (b_name b), p_sku = toUpperCase (the (b_sku b)),
                    p_category = the (b_category b), unitPriceTZS = the (b_sellingPrice b),
                    costPriceTZS = the (b_costPrice b),
                    stockQuantity = (if truthyNum (b_stockQuantity b)
                                     then the (b_stockQuantity b) else 0)\<rparr> d of
              None \<Rightarrow> (Failure 500 (ServerError ''Failed to create product.''), emit ConsoleError d)
            | Some (product, d1) \<Rightarrow>
                (Success 201 product,
                 createAuditLog e
                   \<lparr>a_userId = userId, a_action = ''create_product'',
                    a_entityType = ''product'', a_entityId = p_id product\<rparr> d1))))"

section \<open>Reports (controllers/reportController.js)\<close>

text \<open>
  \<open>setHours(0, 0, 0, 0)\<close> and \<open>setHours(23, 59, 59, 999)\<close> move a Date to the
  first and the last millisecond of its day in the server's time zone, here a zone with
  a fixed offset; \<open>$dateToString\<close> with \<open>%Y-%m-%d\<close> names the day in UTC, and
  the day's number since the epoch stands for that name (the two are ordered alike).
\<close>

definition dayMs :: int where
  "dayMs = 86400000"

definition startOfDay :: "int \<Rightarrow> date \<Rightarrow> date" where
  "startOfDay tz t = ((t + tz) div dayMs) * dayMs - tz"

definition endOfDay :: "int \<Rightarrow> date \<Rightarrow> date" where
  "endOfDay tz t = startOfDay tz t + dayMs - 1"

definition utcDay :: "date \<Rightarrow> int" where
  "utcDay t = t div dayMs"

record query =
  q_startDate :: "date option"
  q_endDate :: "date option"

definition dateFilter :: "env \<Rightarrow> query \<Rightarrow> date \<Rightarrow> bool" where
  "dateFilter e q x =
     ((case q_startDate q of None \<Rightarrow> True | Some startDate \<Rightarrow> startDate \<le> x)
      \<and> (case q_endDate q of None \<Rightarrow> True
          | Some endDate \<Rightarrow> x \<le> endOfDay (tzOffset e) endDate))"

text \<open>\<open>$sum\<close> of a \<open>$group\<close> stage is computed by MongoDB, not by the controllers;
  it is the exact sum of the values here.\<close>

definition sumOf :: "('a \<Rightarrow> num) \<Rightarrow> 'a list \<Rightarrow> num" where
  "sumOf f rows = sum_list (map f rows)"

text \<open>A JSON object of numbers is a list of keys with their values. Every key that
  \<open>field\<close> reads below is present in the object it is read from.\<close>

type_synonym obj = "(string \<times> num) list"

definition field :: "obj \<Rightarrow> string \<Rightarrow> num" where
  "field ob k = (case map_of ob k of Some v \<Rightarrow> v | None \<Rightarrow> 0)"

text \<open>\<open>$group\<close> with \<open>_id: null\<close> gives one document, and none for no input.\<close>

definition groupTotals :: "sale list \<Rightarrow> obj list" where
  "groupTotals rows =
     (if rows = [] then []
      else [[(''totalRevenue'', sumOf totalPriceTZS rows),
             (''totalOrders'', of_nat (length rows)),
             (''totalQuantity'', sumOf quantitySold rows)]])"

definition groupPending :: "sale list \<Rightarrow> obj list" where
  "groupPending rows =
     (if rows = [] then []
      else [[(''totalPending'', sumOf totalPriceTZS rows),
             (''pendingOrders'', of_nat (length rows))]])"

text \<open>The \<open>totals\<close> member of the response of \<open>getSalesReport\<close>; the members
  \<open>timeline\<close>, \<open>topProducts\<close> and \<open>paymentMethods\<close> are not modelled.\<close>

record salesReport =
  totals :: obj

definition getSalesReport :: "env \<Rightarrow> query \<Rightarrow> db \<Rightarrow> salesReport" where
  "getSalesReport e q d =
     (let matchStage = (\<lambda>s. dateFilter e q (s_date s) \<and> paymentStatus s = ''paid'');
          totalsResult = groupTotals (filter matchStage (sales d));
          pendingMatchStage = (\<lambda>s. dateFilter e q (s_date s) \<and> paymentStatus s = ''pending'');
          pendingTotalsResult = groupPending (filter pendingMatchStage (sales d));
          totals0 = (case totalsResult of
                       [] \<Rightarrow> [(''totalRevenue'', 0), (''totalOrders'', 0), (''totalQuantity'', 0)]
                     | t # _ \<Rightarrow> t);
          pendingTotals = (case pendingTotalsResult of
                             [] \<Rightarrow> [(''totalPending'', 0), (''pendingOrders'', 0)]
                           | t # _ \<Rightarrow> t);
          totals1 = AList.update ''pendingRevenue'' (field pendingTotals ''totalPending'') totals0;
          totals2 = AList.update ''pendingOrders'' (field pendingTotals ''pendingOrders'') totals1
      in \<lparr>totals =
            [(''totalRevenue'', field totals2 ''totalRevenue''),
             (''totalOrders'', field totals2 ''totalOrders''),
             (''totalQuantity'', field totals2 ''totalQuantity''),
             (''averageOrderValue'',
                if field totals2 ''totalOrders'' > 0
                then jsDiv (field totals2 ''totalRevenue'') (field totals2 ''totalOrders'')
                else 0)]\<rparr>)"

text \<open>The keys of a \<open>$group\<close> stage, each once, in the order of first occurrence.\<close>

definition groupKeys :: "'k list \<Rightarrow> 'k list" where
  "groupKeys ks = rev (remdups (rev ks))"

record topProduct =
  tp_id :: oid
  tp_name :: string
  tp_sku :: string
  tp_quantity :: num

record dashboard =
  todayRevenue :: num
  todayOrders :: nat
  topProductToday :: "topProduct option"
  lowStockCount :: nat
  pendingPayments :: nat
  monthlyRevenueChart :: "(int \<times> num) list"

definition groupByProduct :: "sale list \<Rightarrow> topProduct list" where
  "groupByProduct rows =
     map (\<lambda>k. let g = filter (\<lambda>s. s_productId s = k) rows
              in \<lparr>tp_id = k, tp_name = snap_name (productSnapshot (hd g)),
                  tp_sku = snap_sku (productSnapshot (hd g)),
                  tp_quantity = sumOf quantitySold g\<rparr>)
         (groupKeys (map s_productId rows))"

definition groupByDay :: "sale list \<Rightarrow> (int \<times> num) list" where
  "groupByDay rows =
     map (\<lambda>k. (k, sumOf totalPriceTZS (filter (\<lambda>s. utcDay (s_date s) = k) rows)))
         (groupKeys (map (\<lambda>s. utcDay (s_date s)) rows))"

definition getDashboardSummary :: "env \<Rightarrow> db \<Rightarrow> dashboard" where
  "getDashboardSummary e d =
     (let today = startOfDay (tzOffset e) (now e);
          tomorrow = today + dayMs;
          todayRows = filter (\<lambda>s. today \<le> s_date s \<and> s_date s < tomorrow) (sales d);
          todayStats = (if todayRows = [] then (0, 0)
                        else (sumOf totalPriceTZS todayRows, length todayRows));
          topToday = take 1 (sort_key (\<lambda>g. - tp_quantity g) (groupByProduct todayRows));
          lowStock = length (filter (\<lambda>p. stockQuantity p \<le> 5) (products d));
          thirtyDaysAgo = today - 30 * dayMs;
          monthlyRevenue = sort_key fst
                             (groupByDay (filter (\<lambda>s. thirtyDaysAgo \<le> s_date s) (sales d)));
          pending = length (filter (\<lambda>s. paymentStatus s = ''pending'') (sales d))
      in \<lparr>todayRevenue = fst todayStats, todayOrders = snd todayStats,
          topProductToday = (case topToday of [] \<Rightarrow> None | g # _ \<Rightarrow> Some g),
          lowStockCount = lowStock, pendingPayments = pending,
          monthlyRevenueChart = monthlyRevenue\<rparr>)"

section \<open>Replaying the ledger\<close>

text \<open>The replay of the specification: the purchased quantities of a product minus
  the sold ones, in exact arithmetic.\<close>

definition ledger :: "db \<Rightarrow> product list \<times> sale list \<times> purchase list" where
  "ledger d = (products d, sales d, purchases d)"

definition stockOf :: "db \<Rightarrow> oid \<Rightarrow> num option" where
  "stockOf d pid = map_option stockQuantity (findById p_id pid (products d))"

definition soldTotal :: "db \<Rightarrow> oid \<Rightarrow> num" where
  "soldTotal d pid = sumOf quantitySold (filter (\<lambda>s. s_productId s = pid) (sales d))"

definition purchasedTotal :: "db \<Rightarrow> oid \<Rightarrow> num" where
  "purchasedTotal d pid =
     sumOf quantityPurchased (filter (\<lambda>p. pu_productId p = pid) (purchases d))"

definition replayedStock :: "db \<Rightarrow> oid \<Rightarrow> num" where
  "replayedStock d pid = purchasedTotal d pid - soldTotal d pid"

text \<open>What the stored stock of a product holds beyond the replay of its rows.\<close>

definition stockDrift :: "db \<Rightarrow> oid \<Rightarrow> num option" where
  "stockDrift d pid = map_option (\<lambda>s. s - replayedStock d pid) (stockOf d pid)"

definition isFailure :: "'a response \<Rightarrow> bool" where
  "isFailure r = (case r of Failure st f \<Rightarrow> True | Success st x \<Rightarrow> False)"

definition isSuccess :: "'a response \<Rightarrow> bool" where
  "isSuccess r = (case r of Failure st f \<Rightarrow> False | Success st x \<Rightarrow> True)"

text \<open>The store calls that the side effects of a handler can leave in the trace.\<close>

definition sideEvents :: "event set" where
  "sideEvents = {Write AuditLogs, Write Notifications, ConsoleError}"

text \<open>The sales dated in the server's current day, and the units of one product among
  them: what the dashboard is to be compared with.\<close>

definition todaysSales :: "env \<Rightarrow> db \<Rightarrow> sale list" where
  "todaysSales e d =
     filter (\<lambda>s. startOfDay (tzOffset e) (now e) \<le> s_date s
                 \<and> s_date s < startOfDay (tzOffset e) (now e) + dayMs) (sales d)"

definition soldToday :: "env \<Rightarrow> db \<Rightarrow> oid \<Rightarrow> num" where
  "soldToday e d pid = sumOf quantitySold (filter (\<lambda>s. s_productId s = pid) (todaysSales e d))"

definition salesSince :: "date \<Rightarrow> db \<Rightarrow> sale list" where
  "salesSince t d = filter (\<lambda>s. t \<le> s_date s) (sales d)"

text \<open>Whole numbers small enough for the sums and differences of three of them to be
  doubles, and a store whose stock and quantities are such numbers.\<close>

definition wholeBelow :: "nat \<Rightarrow> num \<Rightarrow> bool" where
  "wholeBelow k x = (of_int \<lfloor>x\<rfloor> = x \<and> \<bar>x\<bar> < 2 ^ k)"

definition wholeStore :: "db \<Rightarrow> bool" where
  "wholeStore d =
     (list_all (\<lambda>p. wholeBelow 51 (stockQuantity p)) (products d)
      \<and> list_all (\<lambda>s. wholeBelow 51 (quantitySold s)) (sales d)
      \<and> list_all (\<lambda>p. wholeBelow 51 (quantityPurchased p)) (purchases d))"

definition wholeQuantity :: "body \<Rightarrow> bool" where
  "wholeQuantity b = (case b_quantity b of None \<Rightarrow> True | Some q \<Rightarrow> wholeBelow 51 q)"

section \<open>Concurrent sales\<close>




section \<open>The scenarios of the specification\<close>

definition env0 :: env where
  "env0 = \<lparr>now = 1000, tzOffset = 0, auditOk = True, notifyOk = True, commitOk = True\<rparr>"

definition emptyBody :: body where
  "emptyBody =
     \<lparr>b_productId = None, b_quantity = None, b_sellingPrice = None, b_costPrice = None,
      b_paymentMethod = None, b_paymentStatus = None, b_supplier = None, b_name = None,
      b_sku = None, b_category = None, b_stockQuantity = None\<rparr>"

text \<open>A store with one admin and nothing else.\<close>

definition db0 :: db where
  "db0 = \<lparr>products = [], sales = [], purchases = [],
          users = [\<lparr>u_id = 1, u_role = ''admin''\<rparr>],
          auditLogs = [], notifications = [], trace = []\<rparr>"

text \<open>Product P of scenario A: stock 10, cost 100, price 150.\<close>

definition productP :: product where
  "productP = \<lparr>p_id = 1, p_name = ''Pen'', p_sku = ''PEN-1'', p_category = ''Office'',
              unitPriceTZS = 150, costPriceTZS = 100, stockQuantity = 10\<rparr>"

definition dbP :: db where
  "dbP = db0\<lparr>products := [productP]\<rparr>"

definition newProductP :: body where
  "newProductP = emptyBody\<lparr>b_name := Some ''Pen'', b_sku := Some ''pen-1'',
                   b_category := Some ''Office'', b_costPrice := Some 100,
                   b_sellingPrice := Some 150, b_stockQuantity := Some 10\<rparr>"

definition newProductQ :: body where
  "newProductQ = emptyBody\<lparr>b_name := Some ''Ink'', b_sku := Some ''ink-1'',
                   b_category := Some ''Office'', b_costPrice := Some 100,
                   b_sellingPrice := Some 150\<rparr>"

text \<open>Scenario A: a sale of 3 at 150, cash, paid.\<close>

definition saleA :: body where
  "saleA = emptyBody\<lparr>b_productId := Some 1, b_quantity := Some 3, b_sellingPrice := Some 150,
             b_paymentMethod := Some ''cash'', b_paymentStatus := Some ''paid''\<rparr>"

definition saleRowA :: sale where
  "saleRowA = \<lparr>s_id = 1, s_productId = 1,
               productSnapshot = \<lparr>snap_name = ''Pen'', snap_sku = ''PEN-1''\<rparr>,
               quantitySold = 3, unitPriceAtSaleTZS = 150, totalPriceTZS = 450,
               paymentMethod = ''cash'', paymentStatus = ''paid'', soldBy = 1, s_date = 1000\<rparr>"

definition dbA :: db where
  "dbA = db0\<lparr>products := [productP\<lparr>stockQuantity := 7\<rparr>], sales := [saleRowA]\<rparr>"

text \<open>Scenario B: from A, a purchase of 5 at 90 from Acme.\<close>

definition purchaseB :: body where
  "purchaseB = emptyBody\<lparr>b_productId := Some 1, b_quantity := Some 5, b_costPrice := Some 90,
                 b_supplier := Some ''Acme''\<rparr>"

definition purchaseRowB :: purchase where
  "purchaseRowB = \<lparr>pu_id = 1, pu_productId = 1, quantityPurchased = 5, unitCostTZS = 90,
                   totalCostTZS = 450, supplierText = ''Acme'', purchasedBy = 1, pu_date = 1000\<rparr>"

definition dbB :: db where
  "dbB = db0\<lparr>products := [productP\<lparr>stockQuantity := 12, costPriceTZS := 90\<rparr>],
              sales := [saleRowA], purchases := [purchaseRowB]\<rparr>"

text \<open>Scenario C: from B, a sale of 20.\<close>

definition saleC :: body where
  "saleC = saleA\<lparr>b_quantity := Some 20\<rparr>"

text \<open>A store where a sale is still pending, made at the time of \<open>env0\<close>.\<close>

definition dbPending :: db where
  "dbPending = db0\<lparr>products := [productP\<lparr>stockQuantity := 7\<rparr>],
                    sales := [saleRowA\<lparr>paymentStatus := ''pending''\<rparr>]\<rparr>"

text \<open>A product created with no stock, 5 units purchased, then 3 of them sold.\<close>

definition dbConsumed :: db where
  "dbConsumed =
     snd (createSale env0 1 saleA
       (snd (createPurchase env0 1 purchaseB (snd (createProduct env0 1 newProductQ db0)))))"

text \<open>The store of scenario A with a second sale of the same day, 2 units at 150,
  not yet paid.\<close>

definition dbMixed :: db where
  "dbMixed = dbA\<lparr>products := [productP\<lparr>stockQuantity := 5\<rparr>],
                  sales := [saleRowA,
                            saleRowA\<lparr>s_id := 2, quantitySold := 2, totalPriceTZS := 300,
                                     paymentStatus := ''pending''\<rparr>]\<rparr>"

text \<open>A product with a stock of 3.4 units, and a sale of 1.2 of them; a product with a
  stock of 2 and three calls for one unit each.\<close>

definition dbFraction :: db where
  "dbFraction = db0\<lparr>products := [productP\<lparr>stockQuantity := toDouble (17 / 5)\<rparr>]\<rparr>"

definition saleFraction :: body where
  "saleFraction = saleA\<lparr>b_quantity := Some (toDouble (6 / 5))\<rparr>"




definition allDates :: query where
  "allDates = \<lparr>q_startDate = None, q_endDate = None\<rparr>"

section \<open>Rounding to a double\<close>

lemma expo_le: assumes "0 < x" shows "2 powi (expo x) \<le> x"
proof (cases "1 \<le> x")
  case True
  let ?n = "\<lfloor>x\<rfloor>"
  have n: "0 < ?n" using True by simp
  then have b: "1 \<le> bitlen ?n" by (auto simp: bitlen_alt_def)
  have "(2::int) ^ nat (bitlen ?n - 1) \<le> ?n" using bitlen_bounds[OF n] by simp
  then have "(of_int ((2::int) ^ nat (bitlen ?n - 1)) :: rat) \<le> of_int ?n" by (simp only: of_int_le_iff)
  also have "\<dots> \<le> x" by simp
  finally have "(2::rat) ^ nat (bitlen ?n - 1) \<le> x" by simp
  moreover have "(2::rat) powi (bitlen ?n - 1) = 2 ^ nat (bitlen ?n - 1)"
    using b by (simp add: power_int_def)
  ultimately show ?thesis using True by (simp add: expo_def)
next
  case False
  let ?c = "\<lceil>1 / x\<rceil>"
  have y: "1 < 1 / x" using False assms by simp
  then have c: "0 < ?c - 1" by linarith
  have "?c - 1 < 2 ^ nat (bitlen (?c - 1))" using bitlen_bounds[OF c] by simp
  then have "?c \<le> 2 ^ nat (bitlen (?c - 1))" by simp
  then have "(of_int ?c :: rat) \<le> of_int (2 ^ nat (bitlen (?c - 1)))" by (simp only: of_int_le_iff)
  then have "(of_int ?c :: rat) \<le> 2 ^ nat (bitlen (?c - 1))" by simp
  then have "1 / x \<le> 2 ^ nat (bitlen (?c - 1))"
    by (rule order_trans[OF le_of_int_ceiling])
  then have "1 / 2 ^ nat (bitlen (?c - 1)) \<le> x"
    using assms by (simp add: field_simps)
  moreover have "(2::rat) powi (- bitlen (?c - 1)) = 1 / 2 ^ nat (bitlen (?c - 1))"
    using bitlen_nonneg[of "?c - 1"] by (simp add: power_int_def field_simps)
  ultimately show ?thesis using False by (simp add: expo_def)
qed

lemma roundHalfEven_nonneg: "0 \<le> m \<Longrightarrow> 0 \<le> roundHalfEven m"
  by (auto simp: roundHalfEven_def Let_def)

lemma roundHalfEven_pos: "1 \<le> m \<Longrightarrow> 0 < roundHalfEven m"
proof -
  assume "1 \<le> m"
  then have "1 \<le> \<lfloor>m\<rfloor>" by simp
  then show ?thesis by (auto simp: roundHalfEven_def Let_def)
qed

lemma roundHalfEven_int: "roundHalfEven (of_int n) = n"
  by (simp add: roundHalfEven_def)

lemma quantum_pos: "0 < (2::rat) powi k"
  by simp

lemma scaled_ge_1: assumes "0 < a" shows "1 \<le> a / 2 powi (expo a - 52)"
proof -
  have "(2::rat) powi (expo a - 52) \<le> 2 powi (expo a)"
    by (intro power_int_increasing) simp_all
  also have "\<dots> \<le> a" by (rule expo_le[OF assms])
  finally show ?thesis by (simp add: field_simps)
qed

lemma toDouble_pos: "0 < x \<Longrightarrow> 0 < toDouble x"
  using roundHalfEven_pos[OF scaled_ge_1[of x]]
  by (simp add: toDouble_def Let_def)

lemma toDouble_minus: "toDouble (- x) = - toDouble x"
  by (simp add: toDouble_def Let_def)

lemma toDouble_neg: "x < 0 \<Longrightarrow> toDouble x < 0"
  using toDouble_pos[of "- x"] by (simp add: toDouble_minus)

lemma toDouble_0 [simp]: "toDouble 0 = 0"
  by (simp add: toDouble_def)

lemma toDouble_sign:
  "(0 \<le> toDouble x) = (0 \<le> x)" "(toDouble x < 0) = (x < 0)" "(toDouble x = 0) = (x = 0)"
  "(0 < toDouble x) = (0 < x)"
proof -
  consider "x < 0" | "x = 0" | "0 < x" by linarith
  then have "(0 \<le> toDouble x) = (0 \<le> x) \<and> (toDouble x < 0) = (x < 0) \<and> (toDouble x = 0) = (x = 0)
     \<and> (0 < toDouble x) = (0 < x)"
  proof cases
    case 1 then show ?thesis using toDouble_neg[of x] by auto
  next
    case 2 then show ?thesis by simp
  next
    case 3 then show ?thesis using toDouble_pos[of x] by auto
  qed
  then show "(0 \<le> toDouble x) = (0 \<le> x)" "(toDouble x < 0) = (x < 0)" "(toDouble x = 0) = (x = 0)"
    "(0 < toDouble x) = (0 < x)" by simp_all
qed

lemma toDouble_int_pos:
  assumes "0 < n" and "n < 2 ^ 53"
  shows "toDouble (of_int n) = of_int n"
proof -
  let ?a = "of_int n :: rat"
  have a: "0 < ?a" using assms by simp
  have "2 powi (expo ?a) \<le> ?a" by (rule expo_le[OF a])
  also have "?a < 2 ^ 53" using assms(2) by (metis of_int_less_iff of_int_numeral of_int_power)
  finally have "(2::rat) powi (expo ?a) < 2 powi 53" by simp
  then have e: "expo ?a < 53" by (intro power_int_le_imp_less_exp[of "2::rat"]) simp_all
  define k where "k = nat (52 - expo ?a)"
  have u: "(2::rat) powi (expo ?a - 52) = 1 / 2 ^ k"
    using e by (simp add: k_def power_int_def field_simps)
  have "?a / (1 / 2 ^ k) = of_int (n * 2 ^ k)" by simp
  then have "roundHalfEven (?a / (1 / 2 ^ k)) = n * 2 ^ k"
    by (simp only: roundHalfEven_int)
  then show ?thesis
    using a assms(1) by (simp add: toDouble_def Let_def u)
qed

lemma toDouble_int:
  assumes "\<bar>n\<bar> < 2 ^ 53"
  shows "toDouble (of_int n) = of_int n"
proof -
  consider "n < 0" | "n = 0" | "0 < n" by linarith
  then show ?thesis
  proof cases
    case 1
    then have "toDouble (of_int (- n)) = of_int (- n)" using assms by (intro toDouble_int_pos) auto
    then show ?thesis by (simp add: toDouble_minus)
  next
    case 2 then show ?thesis by simp
  next
    case 3 then show ?thesis using assms by (intro toDouble_int_pos) auto
  qed
qed

lemma toDouble_whole:
  assumes "x \<in> \<int>" and "\<bar>x\<bar> < 2 ^ 53"
  shows "toDouble x = x"
proof -
  from assms(1) obtain n where n: "x = of_int n" by (auto elim: Ints_cases)
  have "(of_int \<bar>n\<bar> :: rat) < of_int (2 ^ 53)" using assms(2) n by simp
  then have "\<bar>n\<bar> < 2 ^ 53" by (simp only: of_int_less_iff)
  then show ?thesis unfolding n by (rule toDouble_int)
qed

lemma wholeBelow_exact:
  assumes "wholeBelow k x" and "k \<le> 53"
  shows "toDouble x = x"
proof -
  have "x \<in> \<int>" using assms(1) by (metis wholeBelow_def Ints_of_int)
  moreover have "\<bar>x\<bar> < 2 ^ 53"
  proof -
    have "\<bar>x\<bar> < 2 ^ k" using assms(1) by (simp add: wholeBelow_def)
    also have "(2::rat) ^ k \<le> 2 ^ 53" using assms(2) by (intro power_increasing) simp_all
    finally show ?thesis .
  qed
  ultimately show ?thesis by (rule toDouble_whole)
qed

lemma wholeBelow_add:
  assumes "wholeBelow k x" and "wholeBelow k y"
  shows "wholeBelow (Suc k) (x + y)" and "wholeBelow (Suc k) (x - y)"
proof -
  have i: "x \<in> \<int>" "y \<in> \<int>" using assms by (metis wholeBelow_def Ints_of_int)+
  have b: "\<bar>x\<bar> < 2 ^ k" "\<bar>y\<bar> < 2 ^ k" using assms by (simp_all add: wholeBelow_def)
  have "x + y \<in> \<int>" "x - y \<in> \<int>" using i by simp_all
  then have w: "of_int \<lfloor>x + y\<rfloor> = x + y" "of_int \<lfloor>x - y\<rfloor> = x - y"
    by (auto elim!: Ints_cases)
  have "\<bar>x + y\<bar> < 2 ^ Suc k" "\<bar>x - y\<bar> < 2 ^ Suc k" using b by auto
  with w show "wholeBelow (Suc k) (x + y)" and "wholeBelow (Suc k) (x - y)"
    by (simp_all add: wholeBelow_def)
qed

lemma whole_jsAdd:
  assumes "wholeBelow 51 x" and "wholeBelow 51 y"
  shows "jsAdd x y = x + y" and "jsSub x y = x - y"
    and "wholeBelow 52 (x + y)" and "wholeBelow 52 (x - y)"
proof -
  show a: "wholeBelow 52 (x + y)" and s: "wholeBelow 52 (x - y)"
    using wholeBelow_add[OF assms] by simp_all
  show "jsAdd x y = x + y" using wholeBelow_exact[OF a] by (simp add: jsAdd_def)
  show "jsSub x y = x - y" using wholeBelow_exact[OF s] by (simp add: jsSub_def)
qed

lemma whole_jsAdd3:
  assumes "wholeBelow 51 x" and "wholeBelow 51 y" and "wholeBelow 51 z"
  shows "jsSub (jsAdd x y) z = x + y - z" and "jsAdd (jsSub x y) z = x - y + z"
proof -
  have z: "wholeBelow 52 z"
    using assms(3) unfolding wholeBelow_def
    by (auto intro: less_le_trans[OF _ power_increasing[of 51 52 "2::rat"]])
  have "wholeBelow 53 (x + y - z)" "wholeBelow 53 (x - y + z)"
    using wholeBelow_add[OF whole_jsAdd(3)[OF assms(1,2)] z]
      wholeBelow_add[OF whole_jsAdd(4)[OF assms(1,2)] z] by simp_all
  then have "toDouble (x + y - z) = x + y - z" "toDouble (x - y + z) = x - y + z"
    by (auto intro: wholeBelow_exact)
  then show "jsSub (jsAdd x y) z = x + y - z" and "jsAdd (jsSub x y) z = x - y + z"
    using whole_jsAdd(1,2)[OF assms(1,2)] by (simp_all add: jsAdd_def jsSub_def)
qed

lemma js_sign:
  "(0 \<le> jsSub a b) = (b \<le> a)" "(jsSub a b < 0) = (a < b)"
  "(0 \<le> jsAdd a b) = (0 \<le> a + b)" "(0 \<le> jsMul a b) = (0 \<le> a * b)"
  by (simp_all add: jsSub_def jsAdd_def jsMul_def toDouble_sign)

section \<open>Frame and inversion lemmas for the handlers\<close>

lemma emit_frame [simp]:
  "products (emit ev d) = products d" "sales (emit ev d) = sales d"
  "purchases (emit ev d) = purchases d" "users (emit ev d) = users d"
  "auditLogs (emit ev d) = auditLogs d" "notifications (emit ev d) = notifications d"
  "trace (emit ev d) = trace d @ [ev]"
  by (simp_all add: emit_def)

lemma createAuditLog_frame [simp]:
  "products (createAuditLog e a d) = products d" "sales (createAuditLog e a d) = sales d"
  "purchases (createAuditLog e a d) = purchases d" "users (createAuditLog e a d) = users d"
  by (simp_all add: createAuditLog_def)

lemma createNotification_frame [simp]:
  "products (createNotification e n d) = products d" "sales (createNotification e n d) = sales d"
  "purchases (createNotification e n d) = purchases d" "users (createNotification e n d) = users d"
  by (simp_all add: createNotification_def)

lemma createLowStockNotification_frame [simp]:
  "products (createLowStockNotification e p as d) = products d"
  "sales (createLowStockNotification e p as d) = sales d"
  "purchases (createLowStockNotification e p as d) = purchases d"
  "users (createLowStockNotification e p as d) = users d"
  by (simp_all add: createLowStockNotification_def)

lemma fold_notification_frame [simp]:
  "products (fold (\<lambda>admin. createNotification e (mk admin)) as d) = products d"
  "sales (fold (\<lambda>admin. createNotification e (mk admin)) as d) = sales d"
  "purchases (fold (\<lambda>admin. createNotification e (mk admin)) as d) = purchases d"
  "users (fold (\<lambda>admin. createNotification e (mk admin)) as d) = users d"
  by (induction as arbitrary: d; simp)+

lemma fold_saleNotification_frame [simp]:
  "products (fold (\<lambda>admin. createSaleNotification e i (f admin)) as d) = products d"
  "sales (fold (\<lambda>admin. createSaleNotification e i (f admin)) as d) = sales d"
  "purchases (fold (\<lambda>admin. createSaleNotification e i (f admin)) as d) = purchases d"
  "users (fold (\<lambda>admin. createSaleNotification e i (f admin)) as d) = users d"
  by (induction as arbitrary: d; simp add: createSaleNotification_def)+

lemma fold_purchaseNotification_frame [simp]:
  "products (fold (\<lambda>admin. createPurchaseNotification e i (f admin)) as d) = products d"
  "sales (fold (\<lambda>admin. createPurchaseNotification e i (f admin)) as d) = sales d"
  "purchases (fold (\<lambda>admin. createPurchaseNotification e i (f admin)) as d) = purchases d"
  "users (fold (\<lambda>admin. createPurchaseNotification e i (f admin)) as d) = users d"
  by (induction as arbitrary: d; simp add: createPurchaseNotification_def)+

lemma saleSideEffects_frame [simp]:
  "products (saleSideEffects e u p s d) = products d"
  "sales (saleSideEffects e u p s d) = sales d"
  "purchases (saleSideEffects e u p s d) = purchases d"
  "users (saleSideEffects e u p s d) = users d"
  by (simp_all add: saleSideEffects_def Let_def)

lemma purchaseSideEffects_frame [simp]:
  "products (purchaseSideEffects e u p d) = products d"
  "sales (purchaseSideEffects e u p d) = sales d"
  "purchases (purchaseSideEffects e u p d) = purchases d"
  "users (purchaseSideEffects e u p d) = users d"
  by (simp_all add: purchaseSideEffects_def Let_def)

lemma abort_frame [simp]:
  "products (abortTransaction d) = products d" "sales (abortTransaction d) = sales d"
  "purchases (abortTransaction d) = purchases d"
  "products (caught d) = products d" "sales (caught d) = sales d"
  "purchases (caught d) = purchases d"
  by (simp_all add: abortTransaction_def caught_def)



lemma commit_SomeD:
  "commitTransaction e t d = Some d' \<Longrightarrow>
     commitOk e \<and> products d' = tx_products t \<and> sales d' = tx_sales t \<and> purchases d' = tx_purchases t
     \<and> users d' = users d \<and> auditLogs d' = auditLogs d \<and> notifications d' = notifications d
     \<and> trace d' = trace d @ [Commit]"
  by (auto simp: commitTransaction_def split: if_splits)

lemma Sale_create_SomeD:
  "Sale_create doc t d = Some (s, t', d') \<Longrightarrow>
     saleValid doc \<and> s = doc\<lparr>s_id := freshId (map s_id (tx_sales t))\<rparr>
     \<and> t' = t\<lparr>tx_sales := tx_sales t @ [s]\<rparr> \<and> d' = emit (TxWrite Sales) d"
  by (auto simp: Sale_create_def Let_def split: if_splits)

lemma Product_save_SomeD:
  "Product_save c p t d = Some (t', d') \<Longrightarrow>
     0 \<le> stockQuantity p \<and> t' = t\<lparr>tx_products := replaceById p_id p (tx_products t)\<rparr>
     \<and> d' = emit (TxWrite Products) d"
  by (auto simp: Product_save_def split: if_splits)



lemma createSale_Failure:
  assumes "createSale e u b d = (Failure st f, d')"
  shows "ledger d' = ledger d"
  using assms
  unfolding createSale_def Let_def
  by (auto simp: ledger_def commitFailed_def split: if_split_asm option.split_asm prod.split_asm
        dest!: Sale_create_SomeD Product_save_SomeD)

lemma createSale_Success:
  assumes "createSale e u b d = (Success st sale, d')"
  shows "\<exists>product pid q price m.
            st = 201 \<and> b_productId b = Some pid \<and> b_quantity b = Some q
            \<and> b_sellingPrice b = Some price \<and> b_paymentMethod b = Some m
            \<and> findById p_id pid (products d) = Some product
            \<and> q \<le> stockQuantity product \<and> q \<noteq> 0 \<and> price \<noteq> 0 \<and> commitOk e
            \<and> sale = \<lparr>s_id = freshId (map s_id (sales d)), s_productId = pid,
                  productSnapshot = \<lparr>snap_name = p_name product, snap_sku = p_sku product\<rparr>,
                  quantitySold = q, unitPriceAtSaleTZS = price, totalPriceTZS = jsMul q price,
                  paymentMethod = m,
                  paymentStatus = (case b_paymentStatus b of None \<Rightarrow> ''Paid'' | Some s \<Rightarrow> s),
                  soldBy = u, s_date = now e\<rparr>
            \<and> saleValid sale
            \<and> products d' = replaceById p_id (product\<lparr>stockQuantity := jsSub (stockQuantity product) q\<rparr>) (products d)
            \<and> sales d' = sales d @ [sale] \<and> purchases d' = purchases d"
  using assms
  unfolding createSale_def Let_def
  by (auto simp: startTransaction_def commitFailed_def truthyNum_def truthyId_def truthyStr_def saleValid_def saleFieldsValid_def
        split: if_split_asm option.split_asm prod.split_asm
        dest!: Sale_create_SomeD Product_save_SomeD commit_SomeD)


lemma Sale_save_SomeD:
  "Sale_save s t d = Some (t', d') \<Longrightarrow>
     saleFieldsValid s \<and> t' = t\<lparr>tx_sales := replaceById s_id s (tx_sales t)\<rparr>
     \<and> d' = emit (TxWrite Sales) d"
  by (auto simp: Sale_save_def split: if_splits)

lemma Purchase_create_SomeD:
  "Purchase_create doc t d = Some (p, t', d') \<Longrightarrow>
     purchaseValid (doc\<lparr>supplierText := trim (supplierText doc)\<rparr>)
     \<and> p = doc\<lparr>supplierText := trim (supplierText doc), pu_id := freshId (map pu_id (tx_purchases t))\<rparr>
     \<and> t' = t\<lparr>tx_purchases := tx_purchases t @ [p]\<rparr> \<and> d' = emit (TxWrite Purchases) d"
  by (auto simp: Purchase_create_def Let_def split: if_splits)

lemma Purchase_save_SomeD:
  "Purchase_save p t d = Some (t', d') \<Longrightarrow>
     purchaseValid p \<and> t' = t\<lparr>tx_purchases := replaceById pu_id p (tx_purchases t)\<rparr>
     \<and> d' = emit (TxWrite Purchases) d"
  by (auto simp: Purchase_save_def split: if_splits)

lemma updateSale_Failure:
  assumes "updateSale e u i b d = (Failure st f, d')"
  shows "ledger d' = ledger d"
  using assms
  unfolding updateSale_def Let_def
  by (auto simp: ledger_def commitFailed_def split: if_split_asm option.split_asm prod.split_asm
        dest!: Sale_save_SomeD Product_save_SomeD)

lemma deleteSale_Failure:
  assumes "deleteSale e u i d = (Failure st f, d')"
  shows "ledger d' = ledger d"
  using assms
  unfolding deleteSale_def Let_def
  by (auto simp: ledger_def commitFailed_def Sale_findByIdAndDelete_def split: if_split_asm option.split_asm prod.split_asm
        dest!: Product_save_SomeD)

lemma createPurchase_Failure:
  assumes "createPurchase e u b d = (Failure st f, d')"
  shows "ledger d' = ledger d"
  using assms
  unfolding createPurchase_def Let_def
  by (auto simp: ledger_def commitFailed_def split: if_split_asm option.split_asm prod.split_asm
        dest!: Purchase_create_SomeD Product_save_SomeD)

lemma updatePurchase_Failure:
  assumes "updatePurchase e u i b d = (Failure st f, d')"
  shows "ledger d' = ledger d"
  using assms
  unfolding updatePurchase_def Let_def
  by (auto simp: ledger_def commitFailed_def split: if_split_asm option.split_asm prod.split_asm
        dest!: Purchase_save_SomeD Product_save_SomeD)

lemma deletePurchase_Failure:
  assumes "deletePurchase e u i d = (Failure st f, d')"
  shows "ledger d' = ledger d"
  using assms
  unfolding deletePurchase_def Let_def
  by (auto simp: ledger_def commitFailed_def Purchase_findByIdAndDelete_def split: if_split_asm option.split_asm prod.split_asm
        dest!: Product_save_SomeD)

lemma updateSale_Success:
  assumes "updateSale e u i b d = (Success st s', d')"
  shows "\<exists>sale product.
           st = 200 \<and> findById s_id i (sales d) = Some sale
           \<and> findById p_id (s_productId sale) (products d) = Some product
           \<and> commitOk e \<and> saleFieldsValid s'
           \<and> s_id s' = s_id sale \<and> s_productId s' = s_productId sale
           \<and> quantitySold s' = (if truthyNum (b_quantity b) then the (b_quantity b) else quantitySold sale)
           \<and> unitPriceAtSaleTZS s' = (if truthyNum (b_sellingPrice b) then the (b_sellingPrice b)
                                        else unitPriceAtSaleTZS sale)
           \<and> paymentMethod s' = (if truthyStr (b_paymentMethod b) then the (b_paymentMethod b)
                                   else paymentMethod sale)
           \<and> paymentStatus s' = (if truthyStr (b_paymentStatus b) then the (b_paymentStatus b)
                                   else paymentStatus sale)
           \<and> totalPriceTZS s' = jsMul (quantitySold s') (unitPriceAtSaleTZS s')
           \<and> products d' =
               replaceById p_id
                 (product\<lparr>stockQuantity :=
                    (if truthyNum (b_quantity b)
                     then jsSub (jsAdd (stockQuantity product) (quantitySold sale)) (the (b_quantity b))
                     else jsAdd (stockQuantity product) (quantitySold sale))\<rparr>) (products d)
           \<and> sales d' = replaceById s_id s' (sales d) \<and> purchases d' = purchases d"
  using assms
  unfolding updateSale_def Let_def
  by (auto simp: startTransaction_def commitFailed_def
        split: if_split_asm option.split_asm prod.split_asm
        dest!: Sale_save_SomeD Product_save_SomeD commit_SomeD)

lemma deleteSale_Success:
  assumes "deleteSale e u i d = (Success st x, d')"
  shows "\<exists>sale.
           st = 200 \<and> findById s_id i (sales d) = Some sale \<and> commitOk e
           \<and> products d' =
               (case findById p_id (s_productId sale) (products d) of
                  None \<Rightarrow> products d
                | Some product \<Rightarrow>
                    replaceById p_id
                      (product\<lparr>stockQuantity := jsAdd (stockQuantity product) (quantitySold sale)\<rparr>)
                      (products d))
           \<and> sales d' = deleteById s_id i (sales d) \<and> purchases d' = purchases d"
  using assms
  unfolding deleteSale_def Let_def
  by (auto simp: startTransaction_def commitFailed_def Sale_findByIdAndDelete_def
        split: if_split_asm option.split_asm prod.split_asm
        dest!: Product_save_SomeD commit_SomeD)

lemma createPurchase_Success:
  assumes "createPurchase e u b d = (Success st pu, d')"
  shows "\<exists>product pid q cost sup.
            st = 201 \<and> b_productId b = Some pid \<and> b_quantity b = Some q
            \<and> b_costPrice b = Some cost \<and> b_supplier b = Some sup
            \<and> findById p_id pid (products d) = Some product
            \<and> q \<noteq> 0 \<and> cost \<noteq> 0 \<and> commitOk e \<and> 0 \<le> jsAdd (stockQuantity product) q
            \<and> pu = \<lparr>pu_id = freshId (map pu_id (purchases d)), pu_productId = pid,
                  quantityPurchased = q, unitCostTZS = cost, totalCostTZS = jsMul q cost,
                  supplierText = trim sup, purchasedBy = u, pu_date = now e\<rparr>
            \<and> purchaseValid pu
            \<and> products d' =
                replaceById p_id (product\<lparr>stockQuantity := jsAdd (stockQuantity product) q, costPriceTZS := cost\<rparr>)
                  (products d)
            \<and> sales d' = sales d \<and> purchases d' = purchases d @ [pu]"
  using assms
  unfolding createPurchase_def Let_def
  by (auto simp: startTransaction_def commitFailed_def truthyNum_def truthyId_def truthyStr_def purchaseValid_def
        split: if_split_asm option.split_asm prod.split_asm
        dest!: Purchase_create_SomeD Product_save_SomeD commit_SomeD)

lemma updatePurchase_Success:
  assumes "updatePurchase e u i b d = (Success st pu', d')"
  shows "\<exists>purchase product product'.
           st = 200 \<and> findById pu_id i (purchases d) = Some purchase
           \<and> findById p_id (pu_productId purchase) (products d) = Some product
           \<and> commitOk e \<and> purchaseValid pu'
           \<and> pu_id pu' = pu_id purchase \<and> pu_productId pu' = pu_productId purchase
           \<and> quantityPurchased pu' =
               (if truthyNum (b_quantity b) then the (b_quantity b) else quantityPurchased purchase)
           \<and> unitCostTZS pu' =
               (if truthyNum (b_costPrice b) then the (b_costPrice b) else unitCostTZS purchase)
           \<and> supplierText pu' =
               (if truthyStr (b_supplier b) then trim (the (b_supplier b)) else supplierText purchase)
           \<and> totalCostTZS pu' = jsMul (quantityPurchased pu') (unitCostTZS pu')
           \<and> product' =
               product\<lparr>stockQuantity :=
                         jsAdd (jsSub (stockQuantity product) (quantityPurchased purchase))
                           (quantityPurchased pu'),
                       costPriceTZS :=
                         (if truthyNum (b_costPrice b) then the (b_costPrice b)
                          else costPriceTZS product)\<rparr>
           \<and> 0 \<le> stockQuantity product'
           \<and> products d' = replaceById p_id product' (products d)
           \<and> sales d' = sales d \<and> purchases d' = replaceById pu_id pu' (purchases d)"
  using assms
  unfolding updatePurchase_def Let_def
  by (auto simp: startTransaction_def commitFailed_def
        split: if_split_asm option.split_asm prod.split_asm
        dest!: Purchase_save_SomeD Product_save_SomeD commit_SomeD)

lemma deletePurchase_Success:
  assumes "deletePurchase e u i d = (Success st x, d')"
  shows "\<exists>purchase.
           st = 200 \<and> findById pu_id i (purchases d) = Some purchase \<and> commitOk e
           \<and> (case findById p_id (pu_productId purchase) (products d) of
                  None \<Rightarrow> products d' = products d
                | Some product \<Rightarrow>
                    0 \<le> jsSub (stockQuantity product) (quantityPurchased purchase) \<and>
                    products d' = replaceById p_id
                      (product\<lparr>stockQuantity := jsSub (stockQuantity product) (quantityPurchased purchase)\<rparr>)
                      (products d))
           \<and> sales d' = sales d \<and> purchases d' = deleteById pu_id i (purchases d)"
  using assms
  unfolding deletePurchase_def Let_def
  by (auto simp: startTransaction_def commitFailed_def Purchase_findByIdAndDelete_def
        split: if_split_asm option.split_asm prod.split_asm
        dest!: Product_save_SomeD commit_SomeD)

section \<open>Lemmas on collections\<close>

lemma findById_SomeD: "findById key i xs = Some x \<Longrightarrow> key x = i \<and> x \<in> set xs"
  by (auto simp: findById_def find_Some_iff)

lemma findById_replaceById:
  "findById key i (replaceById key d xs) =
     (if i = key d then map_option (\<lambda>x. d) (findById key i xs) else findById key i xs)"
  by (induction xs) (auto simp: findById_def)

lemma sumOf_replaceById:
  "findById key (key d) xs = Some old \<Longrightarrow>
     sumOf f (filter P (replaceById key d xs)) =
       sumOf f (filter P xs) - (if P old then f old else 0) + (if P d then f d else 0)"
  by (induction xs) (auto simp: findById_def sumOf_def)

lemma sumOf_deleteById:
  "findById key i xs = Some old \<Longrightarrow>
     sumOf f (filter P (deleteById key i xs)) =
       sumOf f (filter P xs) - (if P old then f old else 0)"
  by (induction xs) (auto simp: findById_def sumOf_def)

lemma sumOf_append:
  "sumOf f (filter P (xs @ [x])) = sumOf f (filter P xs) + (if P x then f x else 0)"
  by (simp add: sumOf_def)

lemma fold_max_ge: "x \<in> set ids \<Longrightarrow> x \<le> fold max ids (a::nat)"
proof (induction ids arbitrary: a)
  case Nil then show ?case by simp
next
  case (Cons y ys)
  have mono: "\<And>b. b \<le> fold max ys (b::nat)"
  proof -
    fix b :: nat show "b \<le> fold max ys b"
      by (induction ys arbitrary: b) (auto intro: order_trans[OF max.cobounded2])
  qed
  from Cons show ?case
    by (auto intro: order_trans[OF _ mono])
qed

lemma freshId_fresh: "findById key (freshId (map key xs)) xs = None"
proof -
  have "\<forall>x\<in>set xs. key x \<noteq> freshId (map key xs)"
  proof
    fix x assume "x \<in> set xs"
    then have "key x \<le> fold max (map key xs) 0" by (intro fold_max_ge) simp
    then show "key x \<noteq> freshId (map key xs)" by (simp add: freshId_def)
  qed
  then show ?thesis by (auto simp: findById_def find_None_iff)
qed

lemma findById_append:
  "findById key i (xs @ ys) =
     (case findById key i xs of Some x \<Rightarrow> Some x | None \<Rightarrow> findById key i ys)"
  by (induction xs) (auto simp: findById_def)

lemma deleteById_append_absent:
  "findById key i xs = None \<Longrightarrow> key x = i \<Longrightarrow> deleteById key i (xs @ [x]) = xs"
  by (induction xs) (auto simp: findById_def split: if_splits)

lemma replaceById_undo:
  "findById key (key p) xs = Some p \<Longrightarrow> key p1 = key p \<Longrightarrow>
     replaceById key p (replaceById key p1 xs) = xs"
  by (induction xs) (auto simp: findById_def split: if_splits)

lemma fst_snd_FailureD: "isFailure (fst r) \<Longrightarrow> \<exists>st f. r = (Failure st f, snd r)"
  by (cases r; cases "fst r") (auto simp: isFailure_def)


section \<open>Error paths\<close>

text \<open>
  Claim C4. Whenever a call of one of the six handlers of the transaction recorder is
  answered with an error (a 400, a 404, or a 500, whatever was thrown), the
  products, sales and purchases of the store are what they were before the call: no row
  and no stock change of the aborted transaction persists. A sale of more than the stock
  is refused with status 400 and the message that carries the available and the requested
  quantity, and the stock stays as it was (scenario C: 12 available, 20 requested).
\<close>

theorem error_paths_leave_ledger_unchanged:
  "(isFailure (fst (createSale e u b d)) \<longrightarrow> ledger (snd (createSale e u b d)) = ledger d)
   \<and> (isFailure (fst (updateSale e u i b d)) \<longrightarrow> ledger (snd (updateSale e u i b d)) = ledger d)
   \<and> (isFailure (fst (deleteSale e u i d)) \<longrightarrow> ledger (snd (deleteSale e u i d)) = ledger d)
   \<and> (isFailure (fst (createPurchase e u b d)) \<longrightarrow> ledger (snd (createPurchase e u b d)) = ledger d)
   \<and> (isFailure (fst (updatePurchase e u i b d)) \<longrightarrow> ledger (snd (updatePurchase e u i b d)) = ledger d)
   \<and> (isFailure (fst (deletePurchase e u i d)) \<longrightarrow> ledger (snd (deletePurchase e u i d)) = ledger d)
   \<and> (b_productId b = Some pid \<and> b_quantity b = Some q \<and> q \<noteq> 0 \<and> truthyNum (b_sellingPrice b)
        \<and> truthyStr (b_paymentMethod b) \<and> findById p_id pid (products d) = Some p
        \<and> stockQuantity p < q
       \<longrightarrow> fst (createSale e u b d) = Failure 400 (InsufficientStock (stockQuantity p) q)
           \<and> stockOf (snd (createSale e u b d)) pid = Some (stockQuantity p))"
proof (intro conjI impI)
  assume "isFailure (fst (createSale e u b d))"
  then show "ledger (snd (createSale e u b d)) = ledger d"
    by (auto dest!: fst_snd_FailureD dest: createSale_Failure)
next
  assume "isFailure (fst (updateSale e u i b d))"
  then show "ledger (snd (updateSale e u i b d)) = ledger d"
    by (auto dest!: fst_snd_FailureD dest: updateSale_Failure)
next
  assume "isFailure (fst (deleteSale e u i d))"
  then show "ledger (snd (deleteSale e u i d)) = ledger d"
    by (auto dest!: fst_snd_FailureD dest: deleteSale_Failure)
next
  assume "isFailure (fst (createPurchase e u b d))"
  then show "ledger (snd (createPurchase e u b d)) = ledger d"
    by (auto dest!: fst_snd_FailureD dest: createPurchase_Failure)
next
  assume "isFailure (fst (updatePurchase e u i b d))"
  then show "ledger (snd (updatePurchase e u i b d)) = ledger d"
    by (auto dest!: fst_snd_FailureD dest: updatePurchase_Failure)
next
  assume "isFailure (fst (deletePurchase e u i d))"
  then show "ledger (snd (deletePurchase e u i d)) = ledger d"
    by (auto dest!: fst_snd_FailureD dest: deletePurchase_Failure)
next
  assume a: "b_productId b = Some pid \<and> b_quantity b = Some q \<and> q \<noteq> 0 \<and> truthyNum (b_sellingPrice b)
        \<and> truthyStr (b_paymentMethod b) \<and> findById p_id pid (products d) = Some p
        \<and> stockQuantity p < q"
  then have r: "createSale e u b d = (Failure 400 (InsufficientStock (stockQuantity p) q), abortTransaction d)"
    by (simp add: createSale_def startTransaction_def truthyId_def truthyNum_def)
  show "fst (createSale e u b d) = Failure 400 (InsufficientStock (stockQuantity p) q)"
    using r by simp
  show "stockOf (snd (createSale e u b d)) pid = Some (stockQuantity p)"
    using r a by (simp add: stockOf_def)
qed

lemmas scenario_defs = env0_def emptyBody_def db0_def productP_def dbP_def newProductP_def
  newProductQ_def saleA_def saleRowA_def dbA_def purchaseB_def purchaseRowB_def dbB_def saleC_def
  dbPending_def dbMixed_def allDates_def

theorem error_paths_leave_ledger_unchanged_witness:
  "isFailure (fst (createSale env0 1 saleC dbB))
   \<and> ledger (snd (createSale env0 1 saleC dbB)) = ledger dbB
   \<and> fst (createSale env0 1 saleC dbB) = Failure 400 (InsufficientStock 12 20)
   \<and> stockOf (snd (createSale env0 1 saleC dbB)) 1 = Some 12
   \<and> isFailure (fst (updateSale env0 1 1 saleC dbB))
   \<and> ledger (snd (updateSale env0 1 1 saleC dbB)) = ledger dbB
   \<and> isFailure (fst (deleteSale env0 1 7 dbB))
   \<and> ledger (snd (deleteSale env0 1 7 dbB)) = ledger dbB
   \<and> isFailure (fst (createPurchase env0 1 emptyBody dbB))
   \<and> ledger (snd (createPurchase env0 1 emptyBody dbB)) = ledger dbB
   \<and> isFailure (fst (updatePurchase env0 1 1 (emptyBody\<lparr>b_quantity := Some (- 5)\<rparr>) dbB))
   \<and> ledger (snd (updatePurchase env0 1 1 (emptyBody\<lparr>b_quantity := Some (- 5)\<rparr>) dbB)) = ledger dbB
   \<and> isFailure (fst (deletePurchase (env0\<lparr>commitOk := False\<rparr>) 1 1 dbB))
   \<and> ledger (snd (deletePurchase (env0\<lparr>commitOk := False\<rparr>) 1 1 dbB)) = ledger dbB"
proof -
  have 1: "isFailure (fst (createSale env0 1 saleC dbB))" by code_simp
  have 2: "isFailure (fst (updateSale env0 1 1 saleC dbB))" by code_simp
  have 3: "isFailure (fst (deleteSale env0 1 7 dbB))" by code_simp
  have 4: "isFailure (fst (createPurchase env0 1 emptyBody dbB))" by code_simp
  have 5: "isFailure (fst (updatePurchase env0 1 1 (emptyBody\<lparr>b_quantity := Some (- 5)\<rparr>) dbB))" by code_simp
  have 6: "isFailure (fst (deletePurchase (env0\<lparr>commitOk := False\<rparr>) 1 1 dbB))" by code_simp
  have 7: "b_productId saleC = Some 1 \<and> b_quantity saleC = Some 20 \<and> (20::rat) \<noteq> 0 \<and> truthyNum (b_sellingPrice saleC)
        \<and> truthyStr (b_paymentMethod saleC)
        \<and> findById p_id 1 (products dbB) = Some (productP\<lparr>stockQuantity := 12, costPriceTZS := 90\<rparr>)
        \<and> stockQuantity (productP\<lparr>stockQuantity := 12, costPriceTZS := 90\<rparr>) < 20"
    by (simp add: scenario_defs truthyNum_def truthyStr_def findById_def)
  show ?thesis
    using error_paths_leave_ledger_unchanged[of env0 1 saleC dbB 1 1 20 "productP\<lparr>stockQuantity := 12, costPriceTZS := 90\<rparr>"]
      error_paths_leave_ledger_unchanged[of env0 1 saleC dbB 7]
      error_paths_leave_ledger_unchanged[of env0 1 emptyBody dbB]
      error_paths_leave_ledger_unchanged[of env0 1 "emptyBody\<lparr>b_quantity := Some (- 5)\<rparr>" dbB 1]
      error_paths_leave_ledger_unchanged[of "env0\<lparr>commitOk := False\<rparr>" 1 _ dbB 1]
      1 2 3 4 5 6 7
    by simp
qed

section \<open>Recording a sale\<close>


text \<open>
  Claim C2 at a unit price of 0 and at an omitted payment status. On the store of
  scenario A (the product exists, stock 10) a sale of 3 at the price 0, which is not
  negative, is answered with 400 "All fields are required": \<open>!sellingPrice\<close> takes the
  0 that was sent for a missing field, although the handler's next check ("Selling price
  cannot be negative") and the schema's \<open>min: 0\<close> admit it, and \<open>createProduct\<close>
  tests \<open>=== undefined\<close> and accepts a selling price of 0. A request without
  \<open>paymentStatus\<close> gets the default \<open>'Paid'\<close>, which the schema's enum
  (\<open>'paid'\<close>, \<open>'pending'\<close>) rejects: the answer is 500. Nothing is recorded in
  either case. With the price 150 and the status paid the sale of scenario A is recorded:
  total 450, stock 7.
\<close>

theorem createSale_rejects_zero_price:
  "findById p_id 1 (products dbP) = Some productP \<and> 3 \<le> stockQuantity productP
   \<and> createSale env0 1 (saleA\<lparr>b_sellingPrice := Some 0\<rparr>) dbP
       = (Failure 400 AllFieldsRequired, abortTransaction dbP)
   \<and> ledger (abortTransaction dbP) = ledger dbP
   \<and> isSuccess (fst (createProduct env0 1 (newProductP\<lparr>b_sellingPrice := Some 0\<rparr>) db0))
   \<and> createSale env0 1 (saleA\<lparr>b_paymentStatus := None\<rparr>) dbP
       = (Failure 500 (ServerError ''Failed to record sale.''), caught dbP)
   \<and> ledger (caught dbP) = ledger dbP
   \<and> fst (createSale env0 1 saleA dbP) = Success 201 saleRowA
   \<and> totalPriceTZS saleRowA = 450
   \<and> stockOf (snd (createSale env0 1 saleA dbP)) 1 = Some 7"
  by code_simp

theorem createSale_rejects_zero_price_witness:
  "isFailure (fst (createSale env0 1 (saleA\<lparr>b_sellingPrice := Some 0\<rparr>) dbP))
   \<and> stockOf (snd (createSale env0 1 (saleA\<lparr>b_sellingPrice := Some 0\<rparr>) dbP)) 1 = Some 10
   \<and> isFailure (fst (createSale env0 1 (saleA\<lparr>b_paymentStatus := None\<rparr>) dbP))
   \<and> stockOf (snd (createSale env0 1 (saleA\<lparr>b_paymentStatus := None\<rparr>) dbP)) 1 = Some 10"
proof -
  have "stockOf (abortTransaction dbP) 1 = Some 10" "stockOf (caught dbP) 1 = Some 10"
    by code_simp+
  then show ?thesis
    using createSale_rejects_zero_price by (simp add: isFailure_def)
qed


section \<open>Sale and deletion of the sale\<close>

lemma fst_snd_SuccessD: "isSuccess (fst r) \<Longrightarrow> \<exists>st x. r = (Success st x, snd r)"
  by (cases r; cases "fst r") (auto simp: isSuccess_def)

lemma deleteSale_ok:
  assumes "findById s_id i (sales d) = Some sale"
    and "findById p_id (s_productId sale) (products d) = Some product"
    and "0 \<le> jsAdd (stockQuantity product) (quantitySold sale)" and "commitOk e"
  shows "\<exists>dx. deleteSale e u i d = (Success 200 (), dx)
           \<and> products dx = replaceById p_id
                 (product\<lparr>stockQuantity := jsAdd (stockQuantity product) (quantitySold sale)\<rparr>) (products d)
           \<and> sales dx = deleteById s_id i (sales d) \<and> purchases dx = purchases d"
  using assms
  by (simp add: deleteSale_def Let_def Product_save_def commitTransaction_def
        startTransaction_def Sale_findByIdAndDelete_def)

lemma whole_round_trip:
  assumes "wholeBelow 53 x" and "wholeBelow 53 y" and "0 \<le> y" and "y \<le> x"
  shows "jsSub x y = x - y" and "jsAdd (x - y) y = x"
proof -
  have "of_int \<lfloor>x\<rfloor> = x" "of_int \<lfloor>y\<rfloor> = y" "\<bar>x\<bar> < 2 ^ 53"
    using assms(1,2) by (simp_all add: wholeBelow_def)
  then have "x - y \<in> \<int>" "\<bar>x - y\<bar> < 2 ^ 53"
    using assms(3,4) by (metis Ints_diff Ints_of_int, linarith)
  then show "jsSub x y = x - y" by (simp add: jsSub_def toDouble_whole)
  show "jsAdd (x - y) y = x"
    using wholeBelow_exact[OF assms(1)] by (simp add: jsAdd_def)
qed

text \<open>
  Claim C10, as stated, at a fractional quantity, which neither the handler nor the
  schemas exclude: a product with a stock of 3.4 (as \<open>createProduct\<close> stores it), a
  sale of 1.2 and the deletion of that sale, both successful, leave a stock of
  3.4000000000000004, one unit in the last place above the stock before the sale,
  because \<open>-=\<close> and \<open>+=\<close> round.
\<close>

theorem fractional_sale_round_trip_counterexample:
  "stockOf (snd (createProduct env0 1
                   (newProductP\<lparr>b_stockQuantity := Some (toDouble (17 / 5))\<rparr>) db0)) 1
     = Some (toDouble (17 / 5))
   \<and> stockOf dbFraction 1 = Some (7656119366529843 / 2251799813685248)
   \<and> isSuccess (fst (createSale env0 1 saleFraction dbFraction))
   \<and> isSuccess (fst (deleteSale env0 1 1 (snd (createSale env0 1 saleFraction dbFraction))))
   \<and> stockOf (snd (deleteSale env0 1 1 (snd (createSale env0 1 saleFraction dbFraction)))) 1
       = Some (7656119366529844 / 2251799813685248)"
  by code_simp

text \<open>
  Claim C10, amended. When the stock of the product and the quantity sold are whole
  numbers below \<open>2^53\<close>, a successful \<open>createSale\<close> followed at once by the
  deletion of that sale (on a store that commits) succeeds and restores the products,
  sales and purchases to what they were before the sale; the stock of every product is
  its value before the sale. Scenario D: stock 10, a sale of 3 gives 7, deleting the sale
  gives 10 again.
\<close>

theorem createSale_then_deleteSale_restores_stock:
  assumes "createSale e u b d = (Success st sale, d1)" and "commitOk e'"
    and "findById p_id (s_productId sale) (products d) = Some p"
    and "wholeBelow 53 (stockQuantity p)" and "wholeBelow 53 (quantitySold sale)"
  shows "fst (deleteSale e' u' (s_id sale) d1) = Success 200 ()
         \<and> ledger (snd (deleteSale e' u' (s_id sale) d1)) = ledger d
         \<and> stockOf (snd (deleteSale e' u' (s_id sale) d1)) pid = stockOf d pid"
proof -
  from createSale_Success[OF assms(1)] obtain product pid' q where
    f: "findById p_id pid' (products d) = Some product" and q: "q \<le> stockQuantity product"
    and sid: "s_id sale = freshId (map s_id (sales d))" and spid: "s_productId sale = pid'"
    and qs: "quantitySold sale = q" and v: "saleValid sale"
    and p1: "products d1 = replaceById p_id (product\<lparr>stockQuantity := jsSub (stockQuantity product) q\<rparr>) (products d)"
    and s1: "sales d1 = sales d @ [sale]" and pu1: "purchases d1 = purchases d"
    by auto
  have pp: "product = p" using f assms(3) spid by simp
  let ?p1 = "product\<lparr>stockQuantity := jsSub (stockQuantity product) q\<rparr>"
  have pid': "p_id product = pid'" using f by (simp add: findById_SomeD)
  have q1: "1 \<le> q" using v qs by (simp add: saleValid_def saleFieldsValid_def)
  have ex: "jsSub (stockQuantity product) q = stockQuantity product - q"
    "jsAdd (stockQuantity product - q) q = stockQuantity product"
    using whole_round_trip[of "stockQuantity product" q] assms(4,5) q q1 pp qs by simp_all
  have a: "findById s_id (s_id sale) (sales d1) = Some sale"
    by (simp add: s1 findById_append sid freshId_fresh) (simp add: findById_def sid[symmetric])
  have b: "findById p_id (s_productId sale) (products d1) = Some ?p1"
    by (simp add: p1 spid findById_replaceById pid' f)
  have c: "0 \<le> jsAdd (stockQuantity ?p1) (quantitySold sale)" using q q1 qs ex by simp
  from deleteSale_ok[OF a b c assms(2), of u'] obtain dx where
    r: "deleteSale e' u' (s_id sale) d1 = (Success 200 (), dx)"
    and px: "products dx = replaceById p_id (?p1\<lparr>stockQuantity := jsAdd (stockQuantity ?p1) (quantitySold sale)\<rparr>) (products d1)"
    and sx: "sales dx = deleteById s_id (s_id sale) (sales d1)" and pux: "purchases dx = purchases d1"
    by blast
  have restored: "?p1\<lparr>stockQuantity := jsAdd (stockQuantity ?p1) (quantitySold sale)\<rparr> = product"
    by (simp add: qs ex)
  have "products dx = products d"
    unfolding px restored p1 using f pid' by (intro replaceById_undo) simp_all
  moreover have "sales dx = sales d"
    unfolding sx s1 by (intro deleteById_append_absent) (simp_all add: sid freshId_fresh)
  ultimately have "ledger dx = ledger d" by (simp add: ledger_def pux pu1)
  then show ?thesis using r by (simp add: stockOf_def ledger_def)
qed

theorem createSale_then_deleteSale_restores_stock_witness:
  "createSale env0 1 saleA dbP = (Success 201 saleRowA, snd (createSale env0 1 saleA dbP))
   \<and> stockOf (snd (createSale env0 1 saleA dbP)) 1 = Some 7
   \<and> fst (deleteSale env0 1 (s_id saleRowA) (snd (createSale env0 1 saleA dbP))) = Success 200 ()
   \<and> stockOf (snd (deleteSale env0 1 (s_id saleRowA) (snd (createSale env0 1 saleA dbP)))) 1 = Some 10"
proof -
  have a: "createSale env0 1 saleA dbP = (Success 201 saleRowA, snd (createSale env0 1 saleA dbP))"
    by code_simp
  have b: "commitOk env0" by (simp add: env0_def)
  have c: "stockOf (snd (createSale env0 1 saleA dbP)) 1 = Some 7" by code_simp
  have d: "stockOf dbP 1 = Some 10" by code_simp
  have f: "findById p_id (s_productId saleRowA) (products dbP) = Some productP" by code_simp
  have w: "wholeBelow 53 (stockQuantity productP)" "wholeBelow 53 (quantitySold saleRowA)"
    by code_simp+
  show ?thesis
    using createSale_then_deleteSale_restores_stock[OF a b f w, of 1 1] a c d by simp
qed

section \<open>The stock against the replay of the rows\<close>

lemma sumOf_app: "sumOf f (xs @ ys) = sumOf f xs + sumOf f ys"
  by (simp add: sumOf_def)

lemma sumOf_Nil: "sumOf f [] = 0"
  by (simp add: sumOf_def)

lemma sumOf_single: "sumOf f [x] = f x"
  by (simp add: sumOf_def)

lemma stockDrift_shift:
  assumes "stockOf d' pid = map_option (\<lambda>s. s + delta) (stockOf d pid)"
    and "replayedStock d' pid = replayedStock d pid + delta"
  shows "stockDrift d' pid = stockDrift d pid"
  using assms by (cases "stockOf d pid") (simp_all add: stockDrift_def)

lemma stockOf_replace:
  assumes "findById p_id (p_id p') (products d) = Some p"
    and "products d' = replaceById p_id p' (products d)"
  shows "stockOf d' pid =
           map_option (\<lambda>s. s + (if pid = p_id p' then stockQuantity p' - stockQuantity p else 0))
             (stockOf d pid)"
  using assms by (cases "findById p_id pid (products d)") (auto simp: stockOf_def findById_replaceById)

lemma list_all_findById:
  "list_all P xs \<Longrightarrow> findById key i xs = Some x \<Longrightarrow> P x"
  by (induction xs) (auto simp: findById_def split: if_split_asm)

lemma wholeStore_rows:
  assumes "wholeStore d"
  shows "findById p_id i (products d) = Some p \<Longrightarrow> wholeBelow 51 (stockQuantity p)"
    and "findById s_id j (sales d) = Some s \<Longrightarrow> wholeBelow 51 (quantitySold s)"
    and "findById pu_id k (purchases d) = Some pu \<Longrightarrow> wholeBelow 51 (quantityPurchased pu)"
  using assms unfolding wholeStore_def by (auto dest: list_all_findById)

lemma wholeQuantity_the:
  "wholeQuantity b \<Longrightarrow> b_quantity b = Some q \<Longrightarrow> wholeBelow 51 q"
  by (simp add: wholeQuantity_def)

lemma createSale_drift:
  assumes "createSale e u b d = (Success st sale, d')" and "wholeStore d" and "wholeQuantity b"
  shows "stockDrift d' pid = stockDrift d pid"
proof -
  from createSale_Success[OF assms(1)] obtain product pid' q where
    f: "findById p_id pid' (products d) = Some product" and bq: "b_quantity b = Some q"
    and spid: "s_productId sale = pid'" and qs: "quantitySold sale = q"
    and p0: "products d' = replaceById p_id (product\<lparr>stockQuantity := jsSub (stockQuantity product) q\<rparr>) (products d)"
    and s1: "sales d' = sales d @ [sale]" and pu1: "purchases d' = purchases d"
    by auto
  have "jsSub (stockQuantity product) q = stockQuantity product - q"
    using wholeStore_rows(1)[OF assms(2) f] wholeQuantity_the[OF assms(3) bq] by (rule whole_jsAdd(2))
  with p0 have p1: "products d' = replaceById p_id (product\<lparr>stockQuantity := stockQuantity product - q\<rparr>) (products d)"
    by simp
  have pid': "p_id product = pid'" using f by (simp add: findById_SomeD)
  let ?delta = "if pid = pid' then - q else 0"
  have "stockOf d' pid = map_option (\<lambda>s. s + ?delta) (stockOf d pid)"
    using stockOf_replace[of "product\<lparr>stockQuantity := stockQuantity product - q\<rparr>" d product d' pid] f p1 pid'
    by simp
  moreover have "replayedStock d' pid = replayedStock d pid + ?delta"
    by (simp add: replayedStock_def soldTotal_def purchasedTotal_def s1 pu1 sumOf_app sumOf_single sumOf_Nil spid qs)
  ultimately show ?thesis by (rule stockDrift_shift)
qed

lemma updateSale_drift:
  assumes "updateSale e u i b d = (Success st s', d')" and "truthyNum (b_quantity b)"
    and "wholeStore d" and "wholeQuantity b"
  shows "stockDrift d' pid = stockDrift d pid"
proof -
  from updateSale_Success[OF assms(1)] assms(2) obtain sale product where
    fs: "findById s_id i (sales d) = Some sale"
    and f: "findById p_id (s_productId sale) (products d) = Some product"
    and sid: "s_id s' = s_id sale" and spid: "s_productId s' = s_productId sale"
    and qs: "quantitySold s' = the (b_quantity b)"
    and p0: "products d' = replaceById p_id
                 (product\<lparr>stockQuantity := jsSub (jsAdd (stockQuantity product) (quantitySold sale)) (the (b_quantity b))\<rparr>) (products d)"
    and s1: "sales d' = replaceById s_id s' (sales d)" and pu1: "purchases d' = purchases d"
    by auto
  from assms(2) obtain q where bq: "b_quantity b = Some q"
    by (cases "b_quantity b") (simp_all add: truthyNum_def)
  have "jsSub (jsAdd (stockQuantity product) (quantitySold sale)) (the (b_quantity b))
          = stockQuantity product + quantitySold sale - the (b_quantity b)"
    using wholeStore_rows(1)[OF assms(3) f] wholeStore_rows(2)[OF assms(3) fs]
      wholeQuantity_the[OF assms(4) bq] bq by (simp add: whole_jsAdd3(1))
  with p0 have p1: "products d' = replaceById p_id
                 (product\<lparr>stockQuantity := stockQuantity product + quantitySold sale - the (b_quantity b)\<rparr>) (products d)"
    by simp
  have pid': "p_id product = s_productId sale" using f by (simp add: findById_SomeD)
  have i: "s_id sale = i" using fs by (simp add: findById_SomeD)
  let ?delta = "if pid = s_productId sale then quantitySold sale - the (b_quantity b) else 0"
  have "stockOf d' pid = map_option (\<lambda>s. s + ?delta) (stockOf d pid)"
    using stockOf_replace[OF _ p1, of product pid] f pid' by simp
  moreover have "replayedStock d' pid = replayedStock d pid + ?delta"
    using sumOf_replaceById[of s_id s' "sales d" sale quantitySold "\<lambda>s. s_productId s = pid"] fs
    by (simp add: replayedStock_def soldTotal_def purchasedTotal_def s1 pu1 sid i spid qs)
  ultimately show ?thesis by (rule stockDrift_shift)
qed

lemma deleteSale_drift:
  assumes "deleteSale e u i d = (Success st x, d')" and "wholeStore d"
  shows "stockDrift d' pid = stockDrift d pid"
proof -
  from deleteSale_Success[OF assms(1)] obtain sale where
    fs: "findById s_id i (sales d) = Some sale"
    and p0: "products d' =
               (case findById p_id (s_productId sale) (products d) of
                  None \<Rightarrow> products d
                | Some product \<Rightarrow>
                    replaceById p_id
                      (product\<lparr>stockQuantity := jsAdd (stockQuantity product) (quantitySold sale)\<rparr>)
                      (products d))"
    and s1: "sales d' = deleteById s_id i (sales d)" and pu1: "purchases d' = purchases d"
    by auto
  have "\<And>product. findById p_id (s_productId sale) (products d) = Some product
          \<Longrightarrow> jsAdd (stockQuantity product) (quantitySold sale) = stockQuantity product + quantitySold sale"
    using wholeStore_rows(1)[OF assms(2)] wholeStore_rows(2)[OF assms(2) fs] by (simp add: whole_jsAdd(1))
  with p0 have p1: "products d' =
               (case findById p_id (s_productId sale) (products d) of
                  None \<Rightarrow> products d
                | Some product \<Rightarrow>
                    replaceById p_id
                      (product\<lparr>stockQuantity := stockQuantity product + quantitySold sale\<rparr>)
                      (products d))"
    by (simp split: option.splits)
  let ?delta = "if pid = s_productId sale then quantitySold sale else 0"
  have r: "replayedStock d' pid = replayedStock d pid + ?delta"
    using sumOf_deleteById[OF fs, of quantitySold "\<lambda>s. s_productId s = pid"]
    by (simp add: replayedStock_def soldTotal_def purchasedTotal_def s1 pu1)
  show ?thesis
  proof (cases "findById p_id (s_productId sale) (products d)")
    case None
    then have "stockOf d' pid = map_option (\<lambda>s. s + ?delta) (stockOf d pid)"
      using p1 by (cases "stockOf d pid") (auto simp: stockOf_def)
    then show ?thesis using r by (rule stockDrift_shift)
  next
    case (Some product)
    then have pid': "p_id product = s_productId sale" by (simp add: findById_SomeD)
    have "stockOf d' pid = map_option (\<lambda>s. s + ?delta) (stockOf d pid)"
      using stockOf_replace[of "product\<lparr>stockQuantity := stockQuantity product + quantitySold sale\<rparr>" d product d' pid]
        Some p1 pid' by simp
    then show ?thesis using r by (rule stockDrift_shift)
  qed
qed

lemma createPurchase_drift:
  assumes "createPurchase e u b d = (Success st pu, d')" and "wholeStore d" and "wholeQuantity b"
  shows "stockDrift d' pid = stockDrift d pid"
proof -
  from createPurchase_Success[OF assms(1)] obtain product pid' q cost where
    f: "findById p_id pid' (products d) = Some product" and bq: "b_quantity b = Some q"
    and spid: "pu_productId pu = pid'" and qs: "quantityPurchased pu = q"
    and p0: "products d' = replaceById p_id
               (product\<lparr>stockQuantity := jsAdd (stockQuantity product) q, costPriceTZS := cost\<rparr>) (products d)"
    and s1: "sales d' = sales d" and pu1: "purchases d' = purchases d @ [pu]"
    by auto
  have "jsAdd (stockQuantity product) q = stockQuantity product + q"
    using wholeStore_rows(1)[OF assms(2) f] wholeQuantity_the[OF assms(3) bq] by (rule whole_jsAdd(1))
  with p0 have p1: "products d' = replaceById p_id
               (product\<lparr>stockQuantity := stockQuantity product + q, costPriceTZS := cost\<rparr>) (products d)"
    by simp
  have pid': "p_id product = pid'" using f by (simp add: findById_SomeD)
  let ?delta = "if pid = pid' then q else 0"
  have "stockOf d' pid = map_option (\<lambda>s. s + ?delta) (stockOf d pid)"
    using stockOf_replace[OF _ p1, of product pid] f pid' by simp
  moreover have "replayedStock d' pid = replayedStock d pid + ?delta"
    by (simp add: replayedStock_def soldTotal_def purchasedTotal_def s1 pu1 sumOf_app sumOf_single sumOf_Nil spid qs)
  ultimately show ?thesis by (rule stockDrift_shift)
qed

lemma updatePurchase_drift:
  assumes "updatePurchase e u i b d = (Success st pu', d')" and "wholeStore d" and "wholeQuantity b"
  shows "stockDrift d' pid = stockDrift d pid"
proof -
  from updatePurchase_Success[OF assms(1)] obtain purchase product product' where
    fs: "findById pu_id i (purchases d) = Some purchase"
    and f: "findById p_id (pu_productId purchase) (products d) = Some product"
    and sid: "pu_id pu' = pu_id purchase" and spid: "pu_productId pu' = pu_productId purchase"
    and qn: "quantityPurchased pu' =
               (if truthyNum (b_quantity b) then the (b_quantity b) else quantityPurchased purchase)"
    and pdef: "product' =
               product\<lparr>stockQuantity :=
                         jsAdd (jsSub (stockQuantity product) (quantityPurchased purchase))
                           (quantityPurchased pu'),
                       costPriceTZS :=
                         (if truthyNum (b_costPrice b) then the (b_costPrice b)
                          else costPriceTZS product)\<rparr>"
    and p1: "products d' = replaceById p_id product' (products d)"
    and s1: "sales d' = sales d" and pu1: "purchases d' = replaceById pu_id pu' (purchases d)"
    by blast
  have wo: "wholeBelow 51 (quantityPurchased purchase)" by (rule wholeStore_rows(3)[OF assms(2) fs])
  have wn: "wholeBelow 51 (quantityPurchased pu')"
  proof (cases "truthyNum (b_quantity b)")
    case True
    then obtain q where "b_quantity b = Some q"
      by (cases "b_quantity b") (simp_all add: truthyNum_def)
    then show ?thesis using wholeQuantity_the[OF assms(3)] qn True by simp
  next
    case False
    then show ?thesis using wo qn by simp
  qed
  have p': "p_id product' = p_id product"
       "stockQuantity product' = stockQuantity product - quantityPurchased purchase + quantityPurchased pu'"
    using whole_jsAdd3(2)[OF wholeStore_rows(1)[OF assms(2) f] wo wn] by (simp_all add: pdef)
  have pid': "p_id product = pu_productId purchase" using f by (simp add: findById_SomeD)
  have i: "pu_id purchase = i" using fs by (simp add: findById_SomeD)
  let ?delta = "if pid = pu_productId purchase then quantityPurchased pu' - quantityPurchased purchase else 0"
  have "stockOf d' pid = map_option (\<lambda>s. s + ?delta) (stockOf d pid)"
    using stockOf_replace[OF _ p1, of product pid] f pid' p' by simp
  moreover have "replayedStock d' pid = replayedStock d pid + ?delta"
    using sumOf_replaceById[of pu_id pu' "purchases d" purchase quantityPurchased "\<lambda>s. pu_productId s = pid"] fs
    by (simp add: replayedStock_def soldTotal_def purchasedTotal_def s1 pu1 sid i spid)
  ultimately show ?thesis by (rule stockDrift_shift)
qed

lemma deletePurchase_drift:
  assumes "deletePurchase e u i d = (Success st x, d')" and "wholeStore d"
  shows "stockDrift d' pid = stockDrift d pid"
proof -
  from deletePurchase_Success[OF assms(1)] obtain purchase where
    fs: "findById pu_id i (purchases d) = Some purchase"
    and p0: "(case findById p_id (pu_productId purchase) (products d) of
                  None \<Rightarrow> products d' = products d
                | Some product \<Rightarrow>
                    0 \<le> jsSub (stockQuantity product) (quantityPurchased purchase) \<and>
                    products d' = replaceById p_id
                      (product\<lparr>stockQuantity := jsSub (stockQuantity product) (quantityPurchased purchase)\<rparr>)
                      (products d))"
    and s1: "sales d' = sales d" and pu1: "purchases d' = deleteById pu_id i (purchases d)"
    by auto
  have "\<And>product. findById p_id (pu_productId purchase) (products d) = Some product
          \<Longrightarrow> jsSub (stockQuantity product) (quantityPurchased purchase)
                = stockQuantity product - quantityPurchased purchase"
    using wholeStore_rows(1)[OF assms(2)] wholeStore_rows(3)[OF assms(2) fs] by (simp add: whole_jsAdd(2))
  with p0 have p1: "(case findById p_id (pu_productId purchase) (products d) of
                  None \<Rightarrow> products d' = products d
                | Some product \<Rightarrow>
                    0 \<le> stockQuantity product - quantityPurchased purchase \<and>
                    products d' = replaceById p_id
                      (product\<lparr>stockQuantity := stockQuantity product - quantityPurchased purchase\<rparr>)
                      (products d))"
    by (simp split: option.splits)
  let ?delta = "if pid = pu_productId purchase then - quantityPurchased purchase else 0"
  have r: "replayedStock d' pid = replayedStock d pid + ?delta"
    using sumOf_deleteById[OF fs, of quantityPurchased "\<lambda>s. pu_productId s = pid"]
    by (simp add: replayedStock_def soldTotal_def purchasedTotal_def s1 pu1)
  show ?thesis
  proof (cases "findById p_id (pu_productId purchase) (products d)")
    case None
    then have "stockOf d' pid = map_option (\<lambda>s. s + ?delta) (stockOf d pid)"
      using p1 by (cases "stockOf d pid") (auto simp: stockOf_def)
    then show ?thesis using r by (rule stockDrift_shift)
  next
    case (Some product)
    then have pid': "p_id product = pu_productId purchase" by (simp add: findById_SomeD)
    have "stockOf d' pid = map_option (\<lambda>s. s + ?delta) (stockOf d pid)"
      using stockOf_replace[of "product\<lparr>stockQuantity := stockQuantity product - quantityPurchased purchase\<rparr>" d product d' pid]
        Some p1 pid' by simp
    then show ?thesis using r by (rule stockDrift_shift)
  qed
qed

text \<open>
  Claim C1, as stated, on a store built by the handlers alone: \<open>createProduct\<close>
  accepts the opening stock 10 of the request, a sale of 3 then succeeds, and the stored
  stock is 7 while the replay of the rows from 0 gives - 3.
\<close>

theorem stock_invariant_counterexample:
  "fst (createProduct env0 1 newProductP db0) = Success 201 productP
   \<and> fst (createSale env0 1 saleA (snd (createProduct env0 1 newProductP db0))) = Success 201 saleRowA
   \<and> stockOf (snd (createSale env0 1 saleA (snd (createProduct env0 1 newProductP db0)))) 1 = Some 7
   \<and> replayedStock (snd (createSale env0 1 saleA (snd (createProduct env0 1 newProductP db0)))) 1 = - 3"
  by code_simp

text \<open>
  Where the stock does move against the replay of the rows. An \<open>updateSale\<close> whose
  request carries the quantity 0 takes the same path as one without a quantity: on the
  store of scenario A the stock goes from 7 to 10 while the sale keeps its 3 units, so the
  stock moves from 10 to 13 ahead of the replay. And \<open>+=\<close> rounds: a purchase of one
  unit on a stock of \<open>2^53\<close> leaves the stock at \<open>2^53\<close>.
\<close>

lemma stock_drift_conditions_needed:
  "stockDrift dbA 1 = Some 10
   \<and> isSuccess (fst (updateSale env0 1 1 (emptyBody\<lparr>b_quantity := Some 0\<rparr>) dbA))
   \<and> stockDrift (snd (updateSale env0 1 1 (emptyBody\<lparr>b_quantity := Some 0\<rparr>) dbA)) 1 = Some 13
   \<and> isSuccess (fst (createPurchase env0 1 (purchaseB\<lparr>b_quantity := Some 1\<rparr>)
                       (dbP\<lparr>products := [productP\<lparr>stockQuantity := 2 ^ 53\<rparr>]\<rparr>)))
   \<and> stockOf (snd (createPurchase env0 1 (purchaseB\<lparr>b_quantity := Some 1\<rparr>)
                       (dbP\<lparr>products := [productP\<lparr>stockQuantity := 2 ^ 53\<rparr>]\<rparr>))) 1 = Some (2 ^ 53)"
  by code_simp

text \<open>
  Claim C1, amended. On a store whose stocks and row quantities are whole numbers of
  absolute value below \<open>2^51\<close> (\<open>wholeStore\<close>), and at a request whose quantity, when
  there is one, is such a whole number (\<open>wholeQuantity\<close>), each successful
  \<open>createSale\<close>, \<open>updateSale\<close> whose request carries a quantity other than 0,
  \<open>deleteSale\<close>, \<open>createPurchase\<close>, \<open>updatePurchase\<close> and \<open>deletePurchase\<close>
  leaves unchanged, for every product, the difference between the stored stock and the
  replay of the rows (purchased minus sold): a stock that agreed with the replay before
  the call agrees with it after, and a stock that was ahead of it by the opening stock of
  the product stays ahead by as much.
\<close>

theorem ledger_operations_preserve_stock_drift:
  "(wholeStore d \<and> wholeQuantity b \<and> isSuccess (fst (createSale e u b d))
      \<longrightarrow> stockDrift (snd (createSale e u b d)) pid = stockDrift d pid)
   \<and> (wholeStore d \<and> wholeQuantity b \<and> truthyNum (b_quantity b)
      \<and> isSuccess (fst (updateSale e u i b d))
      \<longrightarrow> stockDrift (snd (updateSale e u i b d)) pid = stockDrift d pid)
   \<and> (wholeStore d \<and> isSuccess (fst (deleteSale e u i d))
      \<longrightarrow> stockDrift (snd (deleteSale e u i d)) pid = stockDrift d pid)
   \<and> (wholeStore d \<and> wholeQuantity b \<and> isSuccess (fst (createPurchase e u b d))
      \<longrightarrow> stockDrift (snd (createPurchase e u b d)) pid = stockDrift d pid)
   \<and> (wholeStore d \<and> wholeQuantity b \<and> isSuccess (fst (updatePurchase e u i b d))
      \<longrightarrow> stockDrift (snd (updatePurchase e u i b d)) pid = stockDrift d pid)
   \<and> (wholeStore d \<and> isSuccess (fst (deletePurchase e u i d))
      \<longrightarrow> stockDrift (snd (deletePurchase e u i d)) pid = stockDrift d pid)"
proof (intro conjI impI)
  assume "wholeStore d \<and> wholeQuantity b \<and> isSuccess (fst (createSale e u b d))"
  then show "stockDrift (snd (createSale e u b d)) pid = stockDrift d pid"
    by (auto dest!: fst_snd_SuccessD dest: createSale_drift)
next
  assume "wholeStore d \<and> wholeQuantity b \<and> truthyNum (b_quantity b)
      \<and> isSuccess (fst (updateSale e u i b d))"
  then show "stockDrift (snd (updateSale e u i b d)) pid = stockDrift d pid"
    by (auto dest!: fst_snd_SuccessD dest: updateSale_drift)
next
  assume "wholeStore d \<and> isSuccess (fst (deleteSale e u i d))"
  then show "stockDrift (snd (deleteSale e u i d)) pid = stockDrift d pid"
    by (auto dest!: fst_snd_SuccessD dest: deleteSale_drift)
next
  assume "wholeStore d \<and> wholeQuantity b \<and> isSuccess (fst (createPurchase e u b d))"
  then show "stockDrift (snd (createPurchase e u b d)) pid = stockDrift d pid"
    by (auto dest!: fst_snd_SuccessD dest: createPurchase_drift)
next
  assume "wholeStore d \<and> wholeQuantity b \<and> isSuccess (fst (updatePurchase e u i b d))"
  then show "stockDrift (snd (updatePurchase e u i b d)) pid = stockDrift d pid"
    by (auto dest!: fst_snd_SuccessD dest: updatePurchase_drift)
next
  assume "wholeStore d \<and> isSuccess (fst (deletePurchase e u i d))"
  then show "stockDrift (snd (deletePurchase e u i d)) pid = stockDrift d pid"
    by (auto dest!: fst_snd_SuccessD dest: deletePurchase_drift)
qed

theorem ledger_operations_preserve_stock_drift_witness:
  "stockDrift dbP 1 = Some 10 \<and> stockDrift dbA 1 = Some 10 \<and> stockDrift dbB 1 = Some 10
   \<and> wholeStore dbP \<and> wholeStore dbA \<and> wholeStore dbB
   \<and> wholeQuantity saleA \<and> wholeQuantity purchaseB
   \<and> wholeQuantity (emptyBody\<lparr>b_quantity := Some 2\<rparr>)
   \<and> wholeQuantity (emptyBody\<lparr>b_quantity := Some 6\<rparr>)
   \<and> isSuccess (fst (createSale env0 1 saleA dbP))
   \<and> stockDrift (snd (createSale env0 1 saleA dbP)) 1 = Some 10
   \<and> truthyNum (b_quantity (emptyBody\<lparr>b_quantity := Some 2\<rparr>))
   \<and> isSuccess (fst (updateSale env0 1 1 (emptyBody\<lparr>b_quantity := Some 2\<rparr>) dbA))
   \<and> stockDrift (snd (updateSale env0 1 1 (emptyBody\<lparr>b_quantity := Some 2\<rparr>) dbA)) 1 = Some 10
   \<and> isSuccess (fst (deleteSale env0 1 1 dbA))
   \<and> stockDrift (snd (deleteSale env0 1 1 dbA)) 1 = Some 10
   \<and> isSuccess (fst (createPurchase env0 1 purchaseB dbA))
   \<and> stockDrift (snd (createPurchase env0 1 purchaseB dbA)) 1 = Some 10
   \<and> isSuccess (fst (updatePurchase env0 1 1 (emptyBody\<lparr>b_quantity := Some 6\<rparr>) dbB))
   \<and> stockDrift (snd (updatePurchase env0 1 1 (emptyBody\<lparr>b_quantity := Some 6\<rparr>) dbB)) 1 = Some 10
   \<and> isSuccess (fst (deletePurchase env0 1 1 dbB))
   \<and> stockDrift (snd (deletePurchase env0 1 1 dbB)) 1 = Some 10"
proof -
  have 0: "stockDrift dbP 1 = Some 10" "stockDrift dbA 1 = Some 10" "stockDrift dbB 1 = Some 10"
    by code_simp+
  have w: "wholeStore dbP" "wholeStore dbA" "wholeStore dbB" "wholeQuantity saleA"
    "wholeQuantity purchaseB" "wholeQuantity (emptyBody\<lparr>b_quantity := Some 2\<rparr>)"
    "wholeQuantity (emptyBody\<lparr>b_quantity := Some 6\<rparr>)"
    by code_simp+
  have 1: "isSuccess (fst (createSale env0 1 saleA dbP))" by code_simp
  have 2: "truthyNum (b_quantity (emptyBody\<lparr>b_quantity := Some 2\<rparr>))" by code_simp
  have 3: "isSuccess (fst (updateSale env0 1 1 (emptyBody\<lparr>b_quantity := Some 2\<rparr>) dbA))" by code_simp
  have 4: "isSuccess (fst (deleteSale env0 1 1 dbA))" by code_simp
  have 5: "isSuccess (fst (createPurchase env0 1 purchaseB dbA))" by code_simp
  have 6: "isSuccess (fst (updatePurchase env0 1 1 (emptyBody\<lparr>b_quantity := Some 6\<rparr>) dbB))" by code_simp
  have 7: "isSuccess (fst (deletePurchase env0 1 1 dbB))" by code_simp
  show ?thesis
    using ledger_operations_preserve_stock_drift[of dbP saleA env0 1 1]
      ledger_operations_preserve_stock_drift[of dbA "emptyBody\<lparr>b_quantity := Some 2\<rparr>" env0 1 1 1]
      ledger_operations_preserve_stock_drift[of dbA purchaseB env0 1 1]
      ledger_operations_preserve_stock_drift[of dbB "emptyBody\<lparr>b_quantity := Some 6\<rparr>" env0 1 1 1]
      0 w 1 2 3 4 5 6 7
    by simp
qed

text \<open>
  Claim C3 at an update that omits the quantity: on the store of scenario A (stock 7, a
  sale of 3) a request that only sets the payment status to pending succeeds, the sale
  still counts 3 units, and the stock becomes 10: \<open>updateSale\<close> adds the old quantity
  back and subtracts nothing when no quantity is given. \<open>updatePurchase\<close> has the
  \<open>else\<close> branch that \<open>updateSale\<close> lacks: changing only the supplier leaves the
  stock at 12.
\<close>

theorem updateSale_without_quantity_inflates_stock:
  "stockOf dbA 1 = Some 7
   \<and> fst (updateSale env0 1 1 (emptyBody\<lparr>b_paymentStatus := Some ''pending''\<rparr>) dbA)
       = Success 200 (saleRowA\<lparr>paymentStatus := ''pending''\<rparr>)
   \<and> stockOf (snd (updateSale env0 1 1 (emptyBody\<lparr>b_paymentStatus := Some ''pending''\<rparr>) dbA)) 1
       = Some 10
   \<and> soldTotal (snd (updateSale env0 1 1 (emptyBody\<lparr>b_paymentStatus := Some ''pending''\<rparr>) dbA)) 1 = 3
   \<and> stockOf dbB 1 = Some 12
   \<and> isSuccess (fst (updatePurchase env0 1 1 (emptyBody\<lparr>b_supplier := Some ''Zed''\<rparr>) dbB))
   \<and> stockOf (snd (updatePurchase env0 1 1 (emptyBody\<lparr>b_supplier := Some ''Zed''\<rparr>) dbB)) 1
       = Some 12"
  by code_simp



section \<open>Deleting a purchase\<close>

text \<open>
  Claim C9, as stated, on the store where 5 units were purchased and 3 of them sold
  (stock 2): deleting the purchase does not succeed. The subtraction gives - 3, the
  \<open>min: 0\<close> validator of \<open>stockQuantity\<close> rejects the save, the handler answers 500
  and the aborted transaction leaves the stock at 2 and the purchase in place.
\<close>

theorem deletePurchase_consumed_units_counterexample:
  "map quantityPurchased (purchases dbConsumed) = [5]
   \<and> map quantitySold (sales dbConsumed) = [3]
   \<and> stockOf dbConsumed 1 = Some 2
   \<and> deletePurchase env0 1 1 dbConsumed
        = (Failure 500 (ServerError ''Failed to delete purchase.''), caught dbConsumed)
   \<and> stockOf (caught dbConsumed) 1 = Some 2
   \<and> purchases (caught dbConsumed) = purchases dbConsumed"
  by code_simp

lemma deletePurchase_ok:
  assumes "findById pu_id i (purchases d) = Some pu"
    and "findById p_id (pu_productId pu) (products d) = Some p"
    and "quantityPurchased pu \<le> stockQuantity p" and "commitOk e"
  shows "isSuccess (fst (deletePurchase e u i d))"
  using assms
  by (simp add: deletePurchase_def Let_def Product_save_def commitTransaction_def js_sign
        startTransaction_def Purchase_findByIdAndDelete_def isSuccess_def)

text \<open>
  Claim C9, amended. \<open>deletePurchase\<close> subtracts the purchased quantity from the
  stock without a check of its own. When the result would be negative, the save of the
  product fails validation and the call ends with the generic 500, nothing committed; a
  deletion that succeeds leaves the stock at the old stock minus the purchased quantity
  as \<open>-=\<close> computes it (rounded to a double; the exact difference when both are whole
  numbers below \<open>2^51\<close>), which is then not negative; and whenever that difference is
  not negative and the store commits, the deletion succeeds.
\<close>

theorem deletePurchase_never_commits_negative_stock:
  assumes "findById pu_id i (purchases d) = Some pu"
    and "findById p_id (pu_productId pu) (products d) = Some p"
  shows "(stockQuantity p < quantityPurchased pu
           \<longrightarrow> deletePurchase e u i d
                 = (Failure 500 (ServerError ''Failed to delete purchase.''), caught d))
         \<and> (isSuccess (fst (deletePurchase e u i d))
           \<longrightarrow> stockOf (snd (deletePurchase e u i d)) (pu_productId pu)
                 = Some (jsSub (stockQuantity p) (quantityPurchased pu))
               \<and> 0 \<le> jsSub (stockQuantity p) (quantityPurchased pu)
               \<and> 0 \<le> stockQuantity p - quantityPurchased pu
               \<and> (wholeBelow 51 (stockQuantity p) \<and> wholeBelow 51 (quantityPurchased pu)
                  \<longrightarrow> stockOf (snd (deletePurchase e u i d)) (pu_productId pu)
                        = Some (stockQuantity p - quantityPurchased pu)))
         \<and> (quantityPurchased pu \<le> stockQuantity p \<and> commitOk e
           \<longrightarrow> isSuccess (fst (deletePurchase e u i d)))"
proof -
  have A: "deletePurchase e u i d
             = (Failure 500 (ServerError ''Failed to delete purchase.''), caught d)"
    if "stockQuantity p < quantityPurchased pu"
    using that assms
    by (simp add: deletePurchase_def Let_def Product_save_def startTransaction_def js_sign)
  have B: "stockOf (snd (deletePurchase e u i d)) (pu_productId pu)
                 = Some (jsSub (stockQuantity p) (quantityPurchased pu))
        \<and> 0 \<le> jsSub (stockQuantity p) (quantityPurchased pu)
        \<and> 0 \<le> stockQuantity p - quantityPurchased pu
        \<and> (wholeBelow 51 (stockQuantity p) \<and> wholeBelow 51 (quantityPurchased pu)
           \<longrightarrow> stockOf (snd (deletePurchase e u i d)) (pu_productId pu)
                 = Some (stockQuantity p - quantityPurchased pu))"
    if s: "isSuccess (fst (deletePurchase e u i d))"
  proof -
    from s obtain st x where r: "deletePurchase e u i d = (Success st x, snd (deletePurchase e u i d))"
      by (auto dest!: fst_snd_SuccessD)
    from deletePurchase_Success[OF r] assms
    have nn: "0 \<le> jsSub (stockQuantity p) (quantityPurchased pu)"
      and pr: "products (snd (deletePurchase e u i d)) =
            replaceById p_id (p\<lparr>stockQuantity := jsSub (stockQuantity p) (quantityPurchased pu)\<rparr>) (products d)"
      by auto
    have pid: "p_id p = pu_productId pu" using assms(2) by (simp add: findById_SomeD)
    have st: "stockOf (snd (deletePurchase e u i d)) (pu_productId pu)
                   = Some (jsSub (stockQuantity p) (quantityPurchased pu))"
      using assms(2) pid by (simp add: stockOf_def pr findById_replaceById)
    show ?thesis using st nn by (auto simp: js_sign whole_jsAdd(2))
  qed
  have C: "isSuccess (fst (deletePurchase e u i d))"
    if "quantityPurchased pu \<le> stockQuantity p \<and> commitOk e"
    using that deletePurchase_ok[OF assms] by simp
  show ?thesis using A B C by blast
qed

theorem deletePurchase_never_commits_negative_stock_witness:
  "deletePurchase env0 1 1 dbConsumed
      = (Failure 500 (ServerError ''Failed to delete purchase.''), caught dbConsumed)
   \<and> isSuccess (fst (deletePurchase env0 1 1 dbB))
   \<and> stockOf (snd (deletePurchase env0 1 1 dbB)) 1 = Some 7"
proof -
  have a: "findById pu_id 1 (purchases dbConsumed) = Some purchaseRowB" by code_simp
  have b: "findById p_id (pu_productId purchaseRowB) (products dbConsumed)
             = Some \<lparr>p_id = 1, p_name = ''Ink'', p_sku = ''INK-1'', p_category = ''Office'',
                     unitPriceTZS = 150, costPriceTZS = 90, stockQuantity = 2\<rparr>" by code_simp
  have c: "findById pu_id 1 (purchases dbB) = Some purchaseRowB" by code_simp
  have d: "findById p_id (pu_productId purchaseRowB) (products dbB)
             = Some (productP\<lparr>stockQuantity := 12, costPriceTZS := 90\<rparr>)" by code_simp
  have e: "commitOk env0" by code_simp
  have w: "wholeBelow 51 (12::num)" "wholeBelow 51 (5::num)" "jsSub 12 5 = 7" by code_simp+
  show ?thesis
    using deletePurchase_never_commits_negative_stock[OF a b, of env0 1]
      deletePurchase_never_commits_negative_stock[OF c d, of env0 1] e w
    by (simp add: purchaseRowB_def productP_def)
qed


section \<open>Audit trail and notifications around the commit\<close>

lemma createAuditLog_effect:
  "trace (createAuditLog e a d) =
     trace d @ [if auditOk e \<and> auditValid a then Write AuditLogs else ConsoleError]"
  "auditLogs (createAuditLog e a d) =
     (if auditOk e \<and> auditValid a then auditLogs d @ [a] else auditLogs d)"
  "notifications (createAuditLog e a d) = notifications d"
  by (simp_all add: createAuditLog_def)

lemma createNotification_effect:
  "trace (createNotification e n d) =
     trace d @ [if notifyOk e then Write Notifications else ConsoleError]"
  "auditLogs (createNotification e n d) = auditLogs d"
  by (simp_all add: createNotification_def)

lemma fold_createNotification_effect:
  "\<exists>pre. trace (fold (\<lambda>admin. createNotification e (mk admin)) as d) = trace d @ pre
         \<and> set pre \<subseteq> {Write Notifications, ConsoleError}
         \<and> (as \<noteq> [] \<longrightarrow> (if notifyOk e then Write Notifications else ConsoleError) \<in> set pre)"
  "auditLogs (fold (\<lambda>admin. createNotification e (mk admin)) as d) = auditLogs d"
proof -
  show "\<exists>pre. trace (fold (\<lambda>admin. createNotification e (mk admin)) as d) = trace d @ pre
         \<and> set pre \<subseteq> {Write Notifications, ConsoleError}
         \<and> (as \<noteq> [] \<longrightarrow> (if notifyOk e then Write Notifications else ConsoleError) \<in> set pre)"
  proof (induction as arbitrary: d)
    case Nil
    then show ?case by simp
  next
    case (Cons a as)
    from Cons[of "createNotification e (mk a) d"] obtain pre where
      "trace (fold (\<lambda>admin. createNotification e (mk admin)) as (createNotification e (mk a) d))
         = trace (createNotification e (mk a) d) @ pre"
      "set pre \<subseteq> {Write Notifications, ConsoleError}" by blast
    then show ?case
      by (intro exI[of _ "(if notifyOk e then Write Notifications else ConsoleError) # pre"])
         (simp add: createNotification_effect)
  qed
  show "auditLogs (fold (\<lambda>admin. createNotification e (mk admin)) as d) = auditLogs d"
    by (induction as arbitrary: d) (simp_all add: createNotification_effect)
qed

lemma createLowStockNotification_effect:
  "trace (createLowStockNotification e p as d) =
     trace d @ [if notifyOk e then Write Notifications else ConsoleError]"
  "auditLogs (createLowStockNotification e p as d) = auditLogs d"
  by (simp_all add: createLowStockNotification_def)

lemma saleSideEffects_effect:
  "\<exists>pre. trace (saleSideEffects e u p s d) = trace d @ pre \<and> set pre \<subseteq> sideEvents
         \<and> (if auditOk e then Write AuditLogs else ConsoleError) \<in> set pre
         \<and> (findAdmins d \<noteq> []
              \<longrightarrow> (if notifyOk e then Write Notifications else ConsoleError) \<in> set pre)"
  "auditLogs (saleSideEffects e u p s d) =
     (if auditOk e
      then auditLogs d @ [\<lparr>a_userId = u, a_action = ''create_sale'', a_entityType = ''sale'',
                            a_entityId = s_id s\<rparr>]
      else auditLogs d)"
proof -
  let ?a = "\<lparr>a_userId = u, a_action = ''create_sale'', a_entityType = ''sale'', a_entityId = s_id s\<rparr>"
  let ?d1 = "(if stockQuantity p \<le> 5 \<and> stockQuantity p > 0
                then (if findAdmins d \<noteq> []
                      then createLowStockNotification e p (findAdmins d) d
                      else d)
                else d)"
  let ?d2 = "createAuditLog e ?a ?d1"
  have v: "auditValid ?a" by (simp add: auditValid_def)
  have "\<exists>p1. trace ?d1 = trace d @ p1 \<and> set p1 \<subseteq> sideEvents"
  proof (cases "stockQuantity p \<le> 5 \<and> stockQuantity p > 0 \<and> findAdmins d \<noteq> []")
    case True
    then show ?thesis
      by (intro exI[of _ "[if notifyOk e then Write Notifications else ConsoleError]"])
         (simp add: createLowStockNotification_effect sideEvents_def)
  next
    case False
    then have "?d1 = d" by auto
    then show ?thesis by (intro exI[of _ "[]"]) simp
  qed
  then obtain p1 where p1: "trace ?d1 = trace d @ p1" "set p1 \<subseteq> sideEvents" by blast
  have a1: "auditLogs ?d1 = auditLogs d"
    by (simp add: createLowStockNotification_effect)
  obtain p3 where p3:
    "trace (fold (\<lambda>admin. createSaleNotification e (s_id s) (u_id admin)) (findAdmins ?d2) ?d2)
       = trace ?d2 @ p3" "set p3 \<subseteq> {Write Notifications, ConsoleError}"
    "findAdmins ?d2 \<noteq> [] \<longrightarrow> (if notifyOk e then Write Notifications else ConsoleError) \<in> set p3"
    using fold_createNotification_effect(1)[of e "\<lambda>admin. \<lparr>n_userId = u_id admin, n_type = ''sale'', n_ref = s_id s\<rparr>" "findAdmins ?d2" ?d2]
    unfolding createSaleNotification_def by blast
  have a3: "auditLogs (fold (\<lambda>admin. createSaleNotification e (s_id s) (u_id admin)) (findAdmins ?d2) ?d2)
       = auditLogs ?d2"
    unfolding createSaleNotification_def by (rule fold_createNotification_effect(2))
  have eq: "saleSideEffects e u p s d =
      (if findAdmins ?d2 \<noteq> []
       then fold (\<lambda>admin. createSaleNotification e (s_id s) (u_id admin)) (findAdmins ?d2) ?d2
       else ?d2)"
    by (simp add: saleSideEffects_def Let_def)
  have eq': "saleSideEffects e u p s d =
       fold (\<lambda>admin. createSaleNotification e (s_id s) (u_id admin)) (findAdmins ?d2) ?d2"
    unfolding eq by (cases "findAdmins ?d2") simp_all
  let ?ev = "if auditOk e then Write AuditLogs else ConsoleError"
  have t2: "trace ?d2 = trace d @ p1 @ [?ev]"
    using v p1 by (simp add: createAuditLog_effect)
  have ad: "findAdmins ?d2 = findAdmins d" by (simp add: findAdmins_def)
  show "\<exists>pre. trace (saleSideEffects e u p s d) = trace d @ pre \<and> set pre \<subseteq> sideEvents
         \<and> (if auditOk e then Write AuditLogs else ConsoleError) \<in> set pre
         \<and> (findAdmins d \<noteq> []
              \<longrightarrow> (if notifyOk e then Write Notifications else ConsoleError) \<in> set pre)"
    unfolding eq' using p3 t2 p1 ad
    by (intro exI[of _ "p1 @ [?ev] @ p3"]) (auto simp: sideEvents_def)
  show "auditLogs (saleSideEffects e u p s d) =
     (if auditOk e then auditLogs d @ [?a] else auditLogs d)"
    unfolding eq' a3 using v a1 by (simp add: createAuditLog_effect)
qed

lemma purchaseSideEffects_effect:
  "\<exists>pre. trace (purchaseSideEffects e u p d) = trace d @ pre \<and> set pre \<subseteq> sideEvents
         \<and> (if auditOk e then Write AuditLogs else ConsoleError) \<in> set pre
         \<and> (findAdmins d \<noteq> []
              \<longrightarrow> (if notifyOk e then Write Notifications else ConsoleError) \<in> set pre)"
  "auditLogs (purchaseSideEffects e u p d) =
     (if auditOk e
      then auditLogs d @ [\<lparr>a_userId = u, a_action = ''create_purchase'', a_entityType = ''purchase'',
                            a_entityId = pu_id p\<rparr>]
      else auditLogs d)"
proof -
  let ?a = "\<lparr>a_userId = u, a_action = ''create_purchase'', a_entityType = ''purchase'', a_entityId = pu_id p\<rparr>"
  let ?d2 = "createAuditLog e ?a d"
  have v: "auditValid ?a" by (simp add: auditValid_def)
  obtain p3 where p3:
    "trace (fold (\<lambda>admin. createPurchaseNotification e (pu_id p) (u_id admin)) (findAdmins ?d2) ?d2)
       = trace ?d2 @ p3" "set p3 \<subseteq> {Write Notifications, ConsoleError}"
    "findAdmins ?d2 \<noteq> [] \<longrightarrow> (if notifyOk e then Write Notifications else ConsoleError) \<in> set p3"
    using fold_createNotification_effect(1)[of e "\<lambda>admin. \<lparr>n_userId = u_id admin, n_type = ''purchase'', n_ref = pu_id p\<rparr>" "findAdmins ?d2" ?d2]
    unfolding createPurchaseNotification_def by blast
  have a3: "auditLogs (fold (\<lambda>admin. createPurchaseNotification e (pu_id p) (u_id admin)) (findAdmins ?d2) ?d2)
       = auditLogs ?d2"
    unfolding createPurchaseNotification_def by (rule fold_createNotification_effect(2))
  have eq: "purchaseSideEffects e u p d =
      (if findAdmins ?d2 \<noteq> []
       then fold (\<lambda>admin. createPurchaseNotification e (pu_id p) (u_id admin)) (findAdmins ?d2) ?d2
       else ?d2)"
    by (simp add: purchaseSideEffects_def Let_def)
  have eq': "purchaseSideEffects e u p d =
       fold (\<lambda>admin. createPurchaseNotification e (pu_id p) (u_id admin)) (findAdmins ?d2) ?d2"
    unfolding eq by (cases "findAdmins ?d2") simp_all
  let ?ev = "if auditOk e then Write AuditLogs else ConsoleError"
  have t2: "trace ?d2 = trace d @ [?ev]"
    using v by (simp add: createAuditLog_effect)
  have ad: "findAdmins ?d2 = findAdmins d" by (simp add: findAdmins_def)
  show "\<exists>pre. trace (purchaseSideEffects e u p d) = trace d @ pre \<and> set pre \<subseteq> sideEvents
         \<and> (if auditOk e then Write AuditLogs else ConsoleError) \<in> set pre
         \<and> (findAdmins d \<noteq> []
              \<longrightarrow> (if notifyOk e then Write Notifications else ConsoleError) \<in> set pre)"
    unfolding eq' using p3 t2 ad
    by (intro exI[of _ "[?ev] @ p3"]) (auto simp: sideEvents_def)
  show "auditLogs (purchaseSideEffects e u p d) =
     (if auditOk e then auditLogs d @ [?a] else auditLogs d)"
    unfolding eq' a3 using v by (simp add: createAuditLog_effect)
qed

lemma helpers_commitOk [simp]:
  "createAuditLog (e\<lparr>commitOk := c\<rparr>) = createAuditLog e"
  "createLowStockNotification (e\<lparr>commitOk := c\<rparr>) = createLowStockNotification e"
  "createSaleNotification (e\<lparr>commitOk := c\<rparr>) = createSaleNotification e"
  "createPurchaseNotification (e\<lparr>commitOk := c\<rparr>) = createPurchaseNotification e"
  by (intro ext, simp add: createAuditLog_def createLowStockNotification_def
        createSaleNotification_def createPurchaseNotification_def createNotification_def)+

lemma sideEffects_commitOk [simp]:
  "saleSideEffects (e\<lparr>commitOk := c\<rparr>) u p s d = saleSideEffects e u p s d"
  "purchaseSideEffects (e\<lparr>commitOk := c\<rparr>) u pu d = purchaseSideEffects e u pu d"
  by (simp_all add: saleSideEffects_def purchaseSideEffects_def Let_def)

lemma side_frame [simp]:
  "notifications (emit ev d) = notifications d"
  "notifications (caught d) = notifications d" "auditLogs (caught d) = auditLogs d"
  "trace (caught d) = trace d @ [Abort, ConsoleError]"
  by (simp_all add: caught_def abortTransaction_def)

lemma createSale_run:
  assumes "b_productId b = Some pid" and "b_quantity b = Some q" and "b_sellingPrice b = Some price"
    and "b_paymentMethod b = Some m" and "price \<noteq> 0"
    and "findById p_id pid (products d) = Some p" and "q \<le> stockQuantity p"
    and "sale = \<lparr>s_id = freshId (map s_id (sales d)), s_productId = pid,
                  productSnapshot = \<lparr>snap_name = p_name p, snap_sku = p_sku p\<rparr>,
                  quantitySold = q, unitPriceAtSaleTZS = price, totalPriceTZS = jsMul q price,
                  paymentMethod = m,
                  paymentStatus = (case b_paymentStatus b of None \<Rightarrow> ''Paid'' | Some s \<Rightarrow> s),
                  soldBy = u, s_date = now e\<rparr>"
    and "saleValid sale"
    and "d3 = saleSideEffects e u (p\<lparr>stockQuantity := jsSub (stockQuantity p) q\<rparr>) sale
                (emit (TxWrite Products) (emit (TxWrite Sales) d))"
  shows "createSale e u b d =
           (if commitOk e
            then (Success 201 sale,
                  emit Commit (d3\<lparr>products := replaceById p_id (p\<lparr>stockQuantity := jsSub (stockQuantity p) q\<rparr>) (products d),
                                  sales := sales d @ [sale], purchases := purchases d\<rparr>))
            else commitFailed d3)"
proof -
  have v: "1 \<le> q" "0 \<le> price" "0 \<le> jsMul q price" "m \<in> set [''cash'', ''mobile'', ''card'']"
    "(case b_paymentStatus b of None \<Rightarrow> ''Paid'' | Some s \<Rightarrow> s) \<in> set [''paid'', ''pending'']"
    "p_name p \<noteq> []" "p_sku p \<noteq> []"
    using assms(9) unfolding assms(8) saleValid_def saleFieldsValid_def by simp_all
  have ps: "b_paymentStatus b \<noteq> None" using v(5) by (auto split: option.splits)
  have q0: "q \<noteq> 0" "\<not> price < 0" "\<not> stockQuantity p < q" "0 \<le> jsSub (stockQuantity p) q" "m \<noteq> []"
    using v assms(7) by (auto simp: js_sign)
  show ?thesis
    using assms(1-6) q0 v ps
    by (auto simp add: createSale_def Let_def Sale_create_def Product_save_def commitTransaction_def
          startTransaction_def commitFailed_def truthyId_def truthyNum_def truthyStr_def saleValid_def
          saleFieldsValid_def assms(8) assms(10))
qed

lemma createPurchase_run:
  assumes "b_productId b = Some pid" and "b_quantity b = Some q" and "b_costPrice b = Some cost"
    and "b_supplier b = Some sp" and "q \<noteq> 0" and "cost \<noteq> 0"
    and "findById p_id pid (products d) = Some p"
    and "pu = \<lparr>pu_id = freshId (map pu_id (purchases d)), pu_productId = pid,
                  quantityPurchased = q, unitCostTZS = cost, totalCostTZS = jsMul q cost,
                  supplierText = trim sp, purchasedBy = u, pu_date = now e\<rparr>"
    and "purchaseValid pu" and "0 \<le> jsAdd (stockQuantity p) q"
    and "d3 = purchaseSideEffects e u pu (emit (TxWrite Products) (emit (TxWrite Purchases) d))"
  shows "createPurchase e u b d =
           (if commitOk e
            then (Success 201 pu,
                  emit Commit (d3\<lparr>products := replaceById p_id
                                     (p\<lparr>stockQuantity := jsAdd (stockQuantity p) q, costPriceTZS := cost\<rparr>) (products d),
                                  sales := sales d, purchases := purchases d @ [pu]\<rparr>))
            else commitFailed d3)"
proof -
  have v: "1 \<le> q" "0 \<le> cost" "0 \<le> jsMul q cost" "trim sp \<noteq> []"
    using assms(9) unfolding assms(8) purchaseValid_def by simp_all
  have "sp \<noteq> []" using v(4) by (auto simp: trim_def)
  then show ?thesis
    using assms(1-7) assms(10) v
    by (auto simp add: createPurchase_def Let_def Purchase_create_def Product_save_def commitTransaction_def
          startTransaction_def commitFailed_def truthyId_def truthyNum_def truthyStr_def purchaseValid_def
          assms(8) assms(11))
qed

lemma createSale_side_writes:
  assumes "createSale e u b d = (Success st sale, d')"
  shows "(\<exists>pre. trace d' = trace d @ [TxWrite Sales, TxWrite Products] @ pre @ [Commit]
              \<and> set pre \<subseteq> sideEvents
              \<and> (if auditOk e then Write AuditLogs else ConsoleError) \<in> set pre
              \<and> (findAdmins d \<noteq> []
                   \<longrightarrow> (if notifyOk e then Write Notifications else ConsoleError) \<in> set pre))
         \<and> auditLogs d' =
             (if auditOk e
              then auditLogs d @ [\<lparr>a_userId = u, a_action = ''create_sale'', a_entityType = ''sale'',
                                    a_entityId = s_id sale\<rparr>]
              else auditLogs d)
         \<and> fst (createSale (e\<lparr>auditOk := a, notifyOk := n\<rparr>) u b d) = Success st sale
         \<and> ledger (snd (createSale (e\<lparr>auditOk := a, notifyOk := n\<rparr>) u b d)) = ledger d'
         \<and> isFailure (fst (createSale (e\<lparr>commitOk := False\<rparr>) u b d))
         \<and> auditLogs (snd (createSale (e\<lparr>commitOk := False\<rparr>) u b d)) = auditLogs d'
         \<and> notifications (snd (createSale (e\<lparr>commitOk := False\<rparr>) u b d)) = notifications d'"
proof -
  from createSale_Success[OF assms] obtain p pid q price m where
    c: "st = 201" "b_productId b = Some pid" "b_quantity b = Some q" "b_sellingPrice b = Some price"
      "b_paymentMethod b = Some m" "price \<noteq> 0"
      "findById p_id pid (products d) = Some p" "q \<le> stockQuantity p" "commitOk e"
    and sale: "sale = \<lparr>s_id = freshId (map s_id (sales d)), s_productId = pid,
                  productSnapshot = \<lparr>snap_name = p_name p, snap_sku = p_sku p\<rparr>,
                  quantitySold = q, unitPriceAtSaleTZS = price, totalPriceTZS = jsMul q price,
                  paymentMethod = m,
                  paymentStatus = (case b_paymentStatus b of None \<Rightarrow> ''Paid'' | Some s \<Rightarrow> s),
                  soldBy = u, s_date = now e\<rparr>"
    and v: "saleValid sale"
    by blast
  let ?p1 = "p\<lparr>stockQuantity := jsSub (stockQuantity p) q\<rparr>"
  let ?d2 = "emit (TxWrite Products) (emit (TxWrite Sales) d)"
  have run: "\<And>e'. now e' = now e \<Longrightarrow> createSale e' u b d =
           (if commitOk e'
            then (Success 201 sale,
                  emit Commit ((saleSideEffects e' u ?p1 sale ?d2)\<lparr>products := replaceById p_id ?p1 (products d),
                                  sales := sales d @ [sale], purchases := purchases d\<rparr>))
            else commitFailed (saleSideEffects e' u ?p1 sale ?d2))"
  proof -
    fix e' :: env assume "now e' = now e"
    then have sale': "sale = \<lparr>s_id = freshId (map s_id (sales d)), s_productId = pid,
                  productSnapshot = \<lparr>snap_name = p_name p, snap_sku = p_sku p\<rparr>,
                  quantitySold = q, unitPriceAtSaleTZS = price, totalPriceTZS = jsMul q price,
                  paymentMethod = m,
                  paymentStatus = (case b_paymentStatus b of None \<Rightarrow> ''Paid'' | Some s \<Rightarrow> s),
                  soldBy = u, s_date = now e'\<rparr>"
      using sale by simp
    show "createSale e' u b d =
           (if commitOk e'
            then (Success 201 sale,
                  emit Commit ((saleSideEffects e' u ?p1 sale ?d2)\<lparr>products := replaceById p_id ?p1 (products d),
                                  sales := sales d @ [sale], purchases := purchases d\<rparr>))
            else commitFailed (saleSideEffects e' u ?p1 sale ?d2))"
      by (rule createSale_run[OF c(2) c(3) c(4) c(5) c(6) c(7) c(8) sale' v refl])
  qed
  have d': "d' = emit Commit ((saleSideEffects e u ?p1 sale ?d2)\<lparr>products := replaceById p_id ?p1 (products d),
                                  sales := sales d @ [sale], purchases := purchases d\<rparr>)"
    using run[of e] assms c by simp
  from saleSideEffects_effect(1)[of e u ?p1 sale ?d2] obtain pre where
    pre: "trace (saleSideEffects e u ?p1 sale ?d2) = trace ?d2 @ pre" "set pre \<subseteq> sideEvents"
      "(if auditOk e then Write AuditLogs else ConsoleError) \<in> set pre"
      "findAdmins ?d2 \<noteq> []
         \<longrightarrow> (if notifyOk e then Write Notifications else ConsoleError) \<in> set pre" by blast
  have ad: "findAdmins ?d2 = findAdmins d" by (simp add: findAdmins_def)
  have t: "\<exists>pre. trace d' = trace d @ [TxWrite Sales, TxWrite Products] @ pre @ [Commit]
              \<and> set pre \<subseteq> sideEvents
              \<and> (if auditOk e then Write AuditLogs else ConsoleError) \<in> set pre
              \<and> (findAdmins d \<noteq> []
                   \<longrightarrow> (if notifyOk e then Write Notifications else ConsoleError) \<in> set pre)"
    using pre ad by (intro exI[of _ pre]) (simp add: d')
  have al: "auditLogs d' =
             (if auditOk e
              then auditLogs d @ [\<lparr>a_userId = u, a_action = ''create_sale'', a_entityType = ''sale'',
                                    a_entityId = s_id sale\<rparr>]
              else auditLogs d)"
    by (simp add: d' saleSideEffects_effect(2))
  have i1: "fst (createSale (e\<lparr>auditOk := a, notifyOk := n\<rparr>) u b d) = Success st sale"
    and i2: "ledger (snd (createSale (e\<lparr>auditOk := a, notifyOk := n\<rparr>) u b d)) = ledger d'"
    using run[of "e\<lparr>auditOk := a, notifyOk := n\<rparr>"] c by (simp_all add: d' ledger_def)
  have f: "createSale (e\<lparr>commitOk := False\<rparr>) u b d =
             commitFailed (saleSideEffects e u ?p1 sale ?d2)"
    using run[of "e\<lparr>commitOk := False\<rparr>"] by simp
  show ?thesis
    using t al i1 i2 by (simp add: f d' isFailure_def commitFailed_def)
qed

lemma createPurchase_side_writes:
  assumes "createPurchase e u b d = (Success st pu, d')"
  shows "(\<exists>pre. trace d' = trace d @ [TxWrite Purchases, TxWrite Products] @ pre @ [Commit]
              \<and> set pre \<subseteq> sideEvents
              \<and> (if auditOk e then Write AuditLogs else ConsoleError) \<in> set pre
              \<and> (findAdmins d \<noteq> []
                   \<longrightarrow> (if notifyOk e then Write Notifications else ConsoleError) \<in> set pre))
         \<and> auditLogs d' =
             (if auditOk e
              then auditLogs d @ [\<lparr>a_userId = u, a_action = ''create_purchase'',
                                    a_entityType = ''purchase'', a_entityId = pu_id pu\<rparr>]
              else auditLogs d)
         \<and> fst (createPurchase (e\<lparr>auditOk := a, notifyOk := n\<rparr>) u b d) = Success st pu
         \<and> ledger (snd (createPurchase (e\<lparr>auditOk := a, notifyOk := n\<rparr>) u b d)) = ledger d'
         \<and> isFailure (fst (createPurchase (e\<lparr>commitOk := False\<rparr>) u b d))
         \<and> auditLogs (snd (createPurchase (e\<lparr>commitOk := False\<rparr>) u b d)) = auditLogs d'
         \<and> notifications (snd (createPurchase (e\<lparr>commitOk := False\<rparr>) u b d)) = notifications d'"
proof -
  from createPurchase_Success[OF assms] obtain p pid q cost sp where
    c: "st = 201" "b_productId b = Some pid" "b_quantity b = Some q" "b_costPrice b = Some cost"
      "b_supplier b = Some sp" "q \<noteq> 0" "cost \<noteq> 0"
      "findById p_id pid (products d) = Some p" "commitOk e"
    and pu: "pu = \<lparr>pu_id = freshId (map pu_id (purchases d)), pu_productId = pid,
                  quantityPurchased = q, unitCostTZS = cost, totalCostTZS = jsMul q cost,
                  supplierText = trim sp, purchasedBy = u, pu_date = now e\<rparr>"
    and v: "purchaseValid pu"
    and nn: "0 \<le> jsAdd (stockQuantity p) q"
    by blast
  let ?p1 = "p\<lparr>stockQuantity := jsAdd (stockQuantity p) q, costPriceTZS := cost\<rparr>"
  let ?d2 = "emit (TxWrite Products) (emit (TxWrite Purchases) d)"
  have run: "\<And>e'. now e' = now e \<Longrightarrow> createPurchase e' u b d =
           (if commitOk e'
            then (Success 201 pu,
                  emit Commit ((purchaseSideEffects e' u pu ?d2)\<lparr>products := replaceById p_id ?p1 (products d),
                                  sales := sales d, purchases := purchases d @ [pu]\<rparr>))
            else commitFailed (purchaseSideEffects e' u pu ?d2))"
  proof -
    fix e' :: env assume "now e' = now e"
    then have pu': "pu = \<lparr>pu_id = freshId (map pu_id (purchases d)), pu_productId = pid,
                  quantityPurchased = q, unitCostTZS = cost, totalCostTZS = jsMul q cost,
                  supplierText = trim sp, purchasedBy = u, pu_date = now e'\<rparr>"
      using pu by simp
    show "createPurchase e' u b d =
           (if commitOk e'
            then (Success 201 pu,
                  emit Commit ((purchaseSideEffects e' u pu ?d2)\<lparr>products := replaceById p_id ?p1 (products d),
                                  sales := sales d, purchases := purchases d @ [pu]\<rparr>))
            else commitFailed (purchaseSideEffects e' u pu ?d2))"
      by (rule createPurchase_run[OF c(2) c(3) c(4) c(5) c(6) c(7) c(8) pu' v nn refl])
  qed
  have d': "d' = emit Commit ((purchaseSideEffects e u pu ?d2)\<lparr>products := replaceById p_id ?p1 (products d),
                                  sales := sales d, purchases := purchases d @ [pu]\<rparr>)"
    using run[of e] assms c by simp
  from purchaseSideEffects_effect(1)[of e u pu ?d2] obtain pre where
    pre: "trace (purchaseSideEffects e u pu ?d2) = trace ?d2 @ pre" "set pre \<subseteq> sideEvents"
      "(if auditOk e then Write AuditLogs else ConsoleError) \<in> set pre"
      "findAdmins ?d2 \<noteq> []
         \<longrightarrow> (if notifyOk e then Write Notifications else ConsoleError) \<in> set pre" by blast
  have ad: "findAdmins ?d2 = findAdmins d" by (simp add: findAdmins_def)
  have t: "\<exists>pre. trace d' = trace d @ [TxWrite Purchases, TxWrite Products] @ pre @ [Commit]
              \<and> set pre \<subseteq> sideEvents
              \<and> (if auditOk e then Write AuditLogs else ConsoleError) \<in> set pre
              \<and> (findAdmins d \<noteq> []
                   \<longrightarrow> (if notifyOk e then Write Notifications else ConsoleError) \<in> set pre)"
    using pre ad by (intro exI[of _ pre]) (simp add: d')
  have al: "auditLogs d' =
             (if auditOk e
              then auditLogs d @ [\<lparr>a_userId = u, a_action = ''create_purchase'',
                                    a_entityType = ''purchase'', a_entityId = pu_id pu\<rparr>]
              else auditLogs d)"
    by (simp add: d' purchaseSideEffects_effect(2))
  have i1: "fst (createPurchase (e\<lparr>auditOk := a, notifyOk := n\<rparr>) u b d) = Success st pu"
    and i2: "ledger (snd (createPurchase (e\<lparr>auditOk := a, notifyOk := n\<rparr>) u b d)) = ledger d'"
    using run[of "e\<lparr>auditOk := a, notifyOk := n\<rparr>"] c by (simp_all add: d' ledger_def)
  have f: "createPurchase (e\<lparr>commitOk := False\<rparr>) u b d =
             commitFailed (purchaseSideEffects e u pu ?d2)"
    using run[of "e\<lparr>commitOk := False\<rparr>"] by simp
  show ?thesis
    using t al i1 i2 by (simp add: f d' isFailure_def commitFailed_def)
qed

text \<open>
  Claim C6, as stated, on scenarios A and B: the audit entry and the notification are
  written after the two writes of the session and before the commit, not after it. When
  the commit then fails, the sale is not recorded, yet its audit entry and its
  notification are in the store.
\<close>

theorem audit_after_commit_counterexample:
  "fst (createSale env0 1 saleA dbP) = Success 201 saleRowA
   \<and> trace (snd (createSale env0 1 saleA dbP))
       = [TxWrite Sales, TxWrite Products, Write AuditLogs, Write Notifications, Commit]
   \<and> isSuccess (fst (createPurchase env0 1 purchaseB dbA))
   \<and> trace (snd (createPurchase env0 1 purchaseB dbA))
       = [TxWrite Purchases, TxWrite Products, Write AuditLogs, Write Notifications, Commit]
   \<and> isFailure (fst (createSale (env0\<lparr>commitOk := False\<rparr>) 1 saleA dbP))
   \<and> sales (snd (createSale (env0\<lparr>commitOk := False\<rparr>) 1 saleA dbP)) = []
   \<and> auditLogs (snd (createSale (env0\<lparr>commitOk := False\<rparr>) 1 saleA dbP))
       = [\<lparr>a_userId = 1, a_action = ''create_sale'', a_entityType = ''sale'', a_entityId = 1\<rparr>]
   \<and> notifications (snd (createSale (env0\<lparr>commitOk := False\<rparr>) 1 saleA dbP))
       = [\<lparr>n_userId = 1, n_type = ''sale'', n_ref = 1\<rparr>]"
  by code_simp

text \<open>
  Claim C6, amended. In every successful \<open>createSale\<close> and \<open>createPurchase\<close> the
  audit entry and the notifications are written after the row and the stock update have
  been written in the session and before the transaction is committed, the commit being
  the last store call; they are written without the session, so a call whose commit fails
  leaves the same audit entries and notifications behind. A failure of the audit write,
  and a failure of the notification writes when there is an admin to notify, is logged on
  the console, and neither changes the answer to the caller nor the committed products,
  sales and purchases.
\<close>

theorem side_writes_precede_commit_and_never_block:
  "(createSale e u b d = (Success st sale, d') \<longrightarrow>
      (\<exists>pre. trace d' = trace d @ [TxWrite Sales, TxWrite Products] @ pre @ [Commit]
              \<and> set pre \<subseteq> {Write AuditLogs, Write Notifications, ConsoleError}
              \<and> (if auditOk e then Write AuditLogs else ConsoleError) \<in> set pre
              \<and> (findAdmins d \<noteq> []
                   \<longrightarrow> (if notifyOk e then Write Notifications else ConsoleError) \<in> set pre))
      \<and> auditLogs d' =
             (if auditOk e
              then auditLogs d @ [\<lparr>a_userId = u, a_action = ''create_sale'', a_entityType = ''sale'',
                                    a_entityId = s_id sale\<rparr>]
              else auditLogs d)
      \<and> fst (createSale (e\<lparr>auditOk := a, notifyOk := n\<rparr>) u b d) = Success st sale
      \<and> ledger (snd (createSale (e\<lparr>auditOk := a, notifyOk := n\<rparr>) u b d)) = ledger d'
      \<and> isFailure (fst (createSale (e\<lparr>commitOk := False\<rparr>) u b d))
      \<and> auditLogs (snd (createSale (e\<lparr>commitOk := False\<rparr>) u b d)) = auditLogs d'
      \<and> notifications (snd (createSale (e\<lparr>commitOk := False\<rparr>) u b d)) = notifications d')
   \<and> (createPurchase e u b d = (Success st pu, d') \<longrightarrow>
      (\<exists>pre. trace d' = trace d @ [TxWrite Purchases, TxWrite Products] @ pre @ [Commit]
              \<and> set pre \<subseteq> {Write AuditLogs, Write Notifications, ConsoleError}
              \<and> (if auditOk e then Write AuditLogs else ConsoleError) \<in> set pre
              \<and> (findAdmins d \<noteq> []
                   \<longrightarrow> (if notifyOk e then Write Notifications else ConsoleError) \<in> set pre))
      \<and> auditLogs d' =
             (if auditOk e
              then auditLogs d @ [\<lparr>a_userId = u, a_action = ''create_purchase'',
                                    a_entityType = ''purchase'', a_entityId = pu_id pu\<rparr>]
              else auditLogs d)
      \<and> fst (createPurchase (e\<lparr>auditOk := a, notifyOk := n\<rparr>) u b d) = Success st pu
      \<and> ledger (snd (createPurchase (e\<lparr>auditOk := a, notifyOk := n\<rparr>) u b d)) = ledger d'
      \<and> isFailure (fst (createPurchase (e\<lparr>commitOk := False\<rparr>) u b d))
      \<and> auditLogs (snd (createPurchase (e\<lparr>commitOk := False\<rparr>) u b d)) = auditLogs d'
      \<and> notifications (snd (createPurchase (e\<lparr>commitOk := False\<rparr>) u b d)) = notifications d')"
  using createSale_side_writes[where e = e and u = u and b = b and d = d and st = st
      and sale = sale and d' = d' and a = a and n = n]
    createPurchase_side_writes[where e = e and u = u and b = b and d = d and st = st
      and pu = pu and d' = d' and a = a and n = n]
  unfolding sideEvents_def by blast

theorem side_writes_precede_commit_and_never_block_witness:
  "createSale env0 1 saleA dbP = (Success 201 saleRowA, snd (createSale env0 1 saleA dbP))
   \<and> findAdmins dbP = [\<lparr>u_id = 1, u_role = ''admin''\<rparr>]
   \<and> fst (createSale (env0\<lparr>auditOk := False, notifyOk := False\<rparr>) 1 saleA dbP) = Success 201 saleRowA
   \<and> ledger (snd (createSale (env0\<lparr>auditOk := False, notifyOk := False\<rparr>) 1 saleA dbP))
       = ledger (snd (createSale env0 1 saleA dbP))
   \<and> auditLogs (snd (createSale (env0\<lparr>commitOk := False\<rparr>) 1 saleA dbP))
       = auditLogs (snd (createSale env0 1 saleA dbP))
   \<and> createPurchase env0 1 purchaseB dbA
       = (Success 201 purchaseRowB, snd (createPurchase env0 1 purchaseB dbA))
   \<and> fst (createPurchase (env0\<lparr>auditOk := False, notifyOk := False\<rparr>) 1 purchaseB dbA)
       = Success 201 purchaseRowB
   \<and> auditLogs (snd (createPurchase (env0\<lparr>commitOk := False\<rparr>) 1 purchaseB dbA))
       = auditLogs (snd (createPurchase env0 1 purchaseB dbA))"
proof -
  have a: "createSale env0 1 saleA dbP = (Success 201 saleRowA, snd (createSale env0 1 saleA dbP))"
    by code_simp
  have b: "createPurchase env0 1 purchaseB dbA
       = (Success 201 purchaseRowB, snd (createPurchase env0 1 purchaseB dbA))"
    by code_simp
  have c: "findAdmins dbP = [\<lparr>u_id = 1, u_role = ''admin''\<rparr>]" by code_simp
  show ?thesis
    using side_writes_precede_commit_and_never_block[where e = env0 and u = 1 and b = saleA
        and d = dbP and st = 201 and sale = saleRowA and d' = "snd (createSale env0 1 saleA dbP)"
        and a = False and n = False]
      side_writes_precede_commit_and_never_block[where e = env0 and u = 1 and b = purchaseB
        and d = dbA and st = 201 and pu = purchaseRowB
        and d' = "snd (createPurchase env0 1 purchaseB dbA)" and a = False and n = False]
      a b c
    by simp
qed


section \<open>Reports\<close>

text \<open>
  Claim C7 on the returned object: for every range and every store, the \<open>totals\<close> of
  the response of \<open>getSalesReport\<close> have the four keys \<open>totalRevenue\<close>,
  \<open>totalOrders\<close>, \<open>totalQuantity\<close> and \<open>averageOrderValue\<close> and neither
  \<open>pendingRevenue\<close> nor \<open>pendingOrders\<close>: the handler adds the pending figures to
  its local \<open>totals\<close> and then builds the response from four fields of it. With one paid
  sale of 450 and one pending sale of 300 the response holds the paid figures only.
\<close>

theorem getSalesReport_drops_pending_totals:
  "map_of (totals (getSalesReport e q d)) ''pendingRevenue'' = None
   \<and> map_of (totals (getSalesReport e q d)) ''pendingOrders'' = None
   \<and> map fst (totals (getSalesReport e q d))
       = [''totalRevenue'', ''totalOrders'', ''totalQuantity'', ''averageOrderValue'']
   \<and> sumOf totalPriceTZS (filter (\<lambda>s. paymentStatus s = ''pending'') (sales dbMixed)) = 300
   \<and> totals (getSalesReport env0 allDates dbMixed)
       = [(''totalRevenue'', 450), (''totalOrders'', 1), (''totalQuantity'', 3),
          (''averageOrderValue'', 450)]"
proof -
  have "sumOf totalPriceTZS (filter (\<lambda>s. paymentStatus s = ''pending'') (sales dbMixed)) = 300"
    by code_simp
  moreover have "totals (getSalesReport env0 allDates dbMixed)
       = [(''totalRevenue'', 450), (''totalOrders'', 1), (''totalQuantity'', 3),
          (''averageOrderValue'', 450)]"
    by code_simp
  moreover have "map_of (totals (getSalesReport e q d)) ''pendingRevenue'' = None"
    "map_of (totals (getSalesReport e q d)) ''pendingOrders'' = None"
    "map fst (totals (getSalesReport e q d))
       = [''totalRevenue'', ''totalOrders'', ''totalQuantity'', ''averageOrderValue'']"
    by (simp_all add: getSalesReport_def Let_def)
  ultimately show ?thesis by blast
qed

text \<open>
  Claim C8, as stated, on a store whose only sale of the day is pending: no paid sale
  exists, and the dashboard reports a revenue of 450 from 1 order. With one paid and one
  pending sale it reports 750 from 2 orders, where the paid sales of the day sum to 450.
\<close>

theorem dashboard_counts_pending_sales_counterexample:
  "filter (\<lambda>s. paymentStatus s = ''paid'') (sales dbPending) = []
   \<and> todayRevenue (getDashboardSummary env0 dbPending) = 450
   \<and> todayOrders (getDashboardSummary env0 dbPending) = 1
   \<and> todayRevenue (getDashboardSummary env0 dbMixed) = 750
   \<and> todayOrders (getDashboardSummary env0 dbMixed) = 2
   \<and> sumOf totalPriceTZS (filter (\<lambda>s. paymentStatus s = ''paid'') (todaysSales env0 dbMixed)) = 450"
  by code_simp

lemma set_groupKeys [simp]: "set (groupKeys ks) = set ks"
  by (simp add: groupKeys_def)

lemma distinct_groupKeys [simp]: "distinct (groupKeys ks)"
  by (simp add: groupKeys_def)

lemma sort_key_head_least:
  assumes "sort_key f xs = g # rest" and "x \<in> set xs"
  shows "f g \<le> f x"
proof -
  have "sorted (map f (g # rest))" using sorted_sort_key[of f xs] assms(1) by simp
  moreover have "x \<in> set (g # rest)" using assms by (metis set_sort)
  ultimately show ?thesis by auto
qed

lemma sort_key_head_mem:
  assumes "sort_key f xs = g # rest" shows "g \<in> set xs"
  using assms by (metis list.set_intros(1) set_sort)

lemma groupByProduct_mem:
  "g \<in> set (groupByProduct rows) \<longleftrightarrow>
     (\<exists>k \<in> s_productId ` set rows.
        g = \<lparr>tp_id = k,
             tp_name = snap_name (productSnapshot (hd (filter (\<lambda>s. s_productId s = k) rows))),
             tp_sku = snap_sku (productSnapshot (hd (filter (\<lambda>s. s_productId s = k) rows))),
             tp_quantity = sumOf quantitySold (filter (\<lambda>s. s_productId s = k) rows)\<rparr>)"
  by (auto simp: groupByProduct_def Let_def)

lemma groupByDay_props:
  "map fst (groupByDay rows) = groupKeys (map (\<lambda>s. utcDay (s_date s)) rows)"
  "(k, v) \<in> set (groupByDay rows) \<Longrightarrow>
     v = sumOf totalPriceTZS (filter (\<lambda>s. utcDay (s_date s) = k) rows)"
  by (auto simp: groupByDay_def comp_def)

text \<open>
  Claim C8, amended. \<open>getDashboardSummary\<close> returns the revenue and the number of
  all sales, paid or pending, dated within the server's current day; the product with the
  largest quantity sold in that day (none when nothing was sold), with that quantity; the
  number of products whose stock is at most 5; the number of pending sales; and a series
  of daily revenue, one entry for each UTC day with a sale since 30 days before the start
  of today, in ascending order, each the sum of all sales of that day in the window.
\<close>

theorem getDashboardSummary_reports_all_sales_of_the_day:
  "todayRevenue (getDashboardSummary e d) = sumOf totalPriceTZS (todaysSales e d)
   \<and> todayOrders (getDashboardSummary e d) = length (todaysSales e d)
   \<and> ((topProductToday (getDashboardSummary e d) = None) = (todaysSales e d = []))
   \<and> (\<forall>g. topProductToday (getDashboardSummary e d) = Some g \<longrightarrow>
         tp_id g \<in> s_productId ` set (todaysSales e d)
         \<and> tp_quantity g = soldToday e d (tp_id g)
         \<and> (\<forall>s \<in> set (todaysSales e d). soldToday e d (s_productId s) \<le> tp_quantity g))
   \<and> lowStockCount (getDashboardSummary e d)
       = length (filter (\<lambda>p. stockQuantity p \<le> 5) (products d))
   \<and> pendingPayments (getDashboardSummary e d)
       = length (filter (\<lambda>s. paymentStatus s = ''pending'') (sales d))
   \<and> sorted (map fst (monthlyRevenueChart (getDashboardSummary e d)))
   \<and> distinct (map fst (monthlyRevenueChart (getDashboardSummary e d)))
   \<and> fst ` set (monthlyRevenueChart (getDashboardSummary e d))
       = (\<lambda>s. utcDay (s_date s)) `
           set (salesSince (startOfDay (tzOffset e) (now e) - 30 * dayMs) d)
   \<and> (\<forall>(k, v) \<in> set (monthlyRevenueChart (getDashboardSummary e d)).
         v = sumOf totalPriceTZS
               (filter (\<lambda>s. utcDay (s_date s) = k)
                  (salesSince (startOfDay (tzOffset e) (now e) - 30 * dayMs) d)))"
proof -
  let ?rows = "todaysSales e d"
  let ?groups = "groupByProduct ?rows"
  let ?sorted = "sort_key (\<lambda>g. - tp_quantity g) ?groups"
  let ?month = "salesSince (startOfDay (tzOffset e) (now e) - 30 * dayMs) d"
  have top: "topProductToday (getDashboardSummary e d) = (case ?sorted of [] \<Rightarrow> None | g # _ \<Rightarrow> Some g)"
    by (cases ?sorted) (simp_all add: getDashboardSummary_def Let_def todaysSales_def)
  have chart: "monthlyRevenueChart (getDashboardSummary e d) = sort_key fst (groupByDay ?month)"
    by (simp add: getDashboardSummary_def Let_def salesSince_def)
  have 1: "todayRevenue (getDashboardSummary e d) = sumOf totalPriceTZS ?rows"
    by (simp add: getDashboardSummary_def Let_def todaysSales_def sumOf_def)
  have 2: "todayOrders (getDashboardSummary e d) = length ?rows"
    by (simp add: getDashboardSummary_def Let_def todaysSales_def)
  have "(?groups = []) = (set (groupKeys (map s_productId ?rows)) = {})"
    unfolding groupByProduct_def by (simp del: set_groupKeys)
  then have ge: "(?groups = []) = (?rows = [])" by simp
  have "(?sorted = []) = (length ?sorted = 0)" by blast
  then have empty: "(?sorted = []) = (?rows = [])" using ge by simp
  have 3: "(topProductToday (getDashboardSummary e d) = None) = (?rows = [])"
    unfolding top empty[symmetric] by (cases ?sorted) simp_all
  have 4: "\<forall>g. topProductToday (getDashboardSummary e d) = Some g \<longrightarrow>
         tp_id g \<in> s_productId ` set ?rows
         \<and> tp_quantity g = soldToday e d (tp_id g)
         \<and> (\<forall>s \<in> set ?rows. soldToday e d (s_productId s) \<le> tp_quantity g)"
  proof (intro allI impI)
    fix g assume "topProductToday (getDashboardSummary e d) = Some g"
    then obtain rest where s: "?sorted = g # rest" by (auto simp: top split: list.splits)
    from sort_key_head_mem[OF s] have gm: "g \<in> set ?groups" .
    then have a: "tp_id g \<in> s_productId ` set ?rows" and b: "tp_quantity g = soldToday e d (tp_id g)"
      by (auto simp: groupByProduct_mem soldToday_def)
    have c: "\<forall>s \<in> set ?rows. soldToday e d (s_productId s) \<le> tp_quantity g"
    proof
      fix x assume "x \<in> set ?rows"
      then have "\<lparr>tp_id = s_productId x,
             tp_name = snap_name (productSnapshot (hd (filter (\<lambda>s. s_productId s = s_productId x) ?rows))),
             tp_sku = snap_sku (productSnapshot (hd (filter (\<lambda>s. s_productId s = s_productId x) ?rows))),
             tp_quantity = sumOf quantitySold (filter (\<lambda>s. s_productId s = s_productId x) ?rows)\<rparr>
            \<in> set ?groups" (is "?h \<in> _")
        unfolding groupByProduct_mem by blast
      from sort_key_head_least[OF s this] show "soldToday e d (s_productId x) \<le> tp_quantity g"
        by (simp add: soldToday_def)
    qed
    from a b c show "tp_id g \<in> s_productId ` set ?rows
         \<and> tp_quantity g = soldToday e d (tp_id g)
         \<and> (\<forall>s \<in> set ?rows. soldToday e d (s_productId s) \<le> tp_quantity g)" by blast
  qed
  have 5: "lowStockCount (getDashboardSummary e d)
       = length (filter (\<lambda>p. stockQuantity p \<le> 5) (products d))"
    and 6: "pendingPayments (getDashboardSummary e d)
       = length (filter (\<lambda>s. paymentStatus s = ''pending'') (sales d))"
    by (simp_all add: getDashboardSummary_def Let_def)
  have 7: "sorted (map fst (monthlyRevenueChart (getDashboardSummary e d)))"
    unfolding chart by (rule sorted_sort_key)
  have 8: "distinct (map fst (monthlyRevenueChart (getDashboardSummary e d)))"
    unfolding chart by (simp add: distinct_map groupByDay_props(1)[symmetric] del: distinct_sort)
      (metis distinct_groupKeys distinct_map distinct_sort groupByDay_props(1) set_sort inj_on_def)
  have 9: "fst ` set (monthlyRevenueChart (getDashboardSummary e d))
       = (\<lambda>s. utcDay (s_date s)) ` set ?month"
    unfolding chart using groupByDay_props(1)[of ?month]
    by (metis (no_types, lifting) list.set_map set_groupKeys set_sort)
  have 10: "\<forall>(k, v) \<in> set (monthlyRevenueChart (getDashboardSummary e d)).
         v = sumOf totalPriceTZS (filter (\<lambda>s. utcDay (s_date s) = k) ?month)"
    unfolding chart by (auto dest: groupByDay_props(2))
  from 1 2 3 4 5 6 7 8 9 10 show ?thesis by blast
qed


theorem getDashboardSummary_reports_all_sales_of_the_day_witness:
  "todayRevenue (getDashboardSummary env0 dbMixed) = 750
   \<and> todayOrders (getDashboardSummary env0 dbMixed) = 2
   \<and> saleRowA \<in> set (todaysSales env0 dbMixed)
   \<and> topProductToday (getDashboardSummary env0 dbMixed)
       = Some \<lparr>tp_id = 1, tp_name = ''Pen'', tp_sku = ''PEN-1'', tp_quantity = 5\<rparr>
   \<and> soldToday env0 dbMixed 1 = 5
   \<and> soldToday env0 dbMixed (s_productId saleRowA) \<le> 5
   \<and> (0, 750) \<in> set (monthlyRevenueChart (getDashboardSummary env0 dbMixed))
   \<and> sumOf totalPriceTZS
         (filter (\<lambda>s. utcDay (s_date s) = 0)
            (salesSince (startOfDay (tzOffset env0) (now env0) - 30 * dayMs) dbMixed)) = 750"
proof -
  have a: "topProductToday (getDashboardSummary env0 dbMixed)
       = Some \<lparr>tp_id = 1, tp_name = ''Pen'', tp_sku = ''PEN-1'', tp_quantity = 5\<rparr>"
    by code_simp
  have b: "sumOf totalPriceTZS (todaysSales env0 dbMixed) = 750"
    "length (todaysSales env0 dbMixed) = 2" "soldToday env0 dbMixed 1 = 5"
    by code_simp+
  have c: "saleRowA \<in> set (todaysSales env0 dbMixed)" by code_simp
  have d: "(0, 750) \<in> set (monthlyRevenueChart (getDashboardSummary env0 dbMixed))"
    by code_simp
  note t = getDashboardSummary_reports_all_sales_of_the_day[of env0 dbMixed]
  from t a c have "soldToday env0 dbMixed (s_productId saleRowA) \<le> 5" by fastforce
  moreover from t d have "sumOf totalPriceTZS
         (filter (\<lambda>s. utcDay (s_date s) = 0)
            (salesSince (startOfDay (tzOffset env0) (now env0) - 30 * dayMs) dbMixed)) = 750"
    by fastforce
  ultimately show ?thesis using t a b c d by simp
qed

section \<open>Sales of one unit, one after the other\<close>








end
